theory Spec2Isabelle
  imports Main
begin

section \<open>Values shared by the logger and the logging middlewares\<close>

text \<open>
  Go's \<^verbatim>\<open>error\<close> interface: a value of type \<open>error option\<close> is \<open>None\<close> for \<^verbatim>\<open>nil\<close>;
  a non-nil error is known by the text its \<^verbatim>\<open>Error()\<close> method returns.
\<close>

datatype error = errorString string

fun err_Error :: "error \<Rightarrow> string" where
  "err_Error (errorString s) = s"

type_synonym Time = nat \<comment> \<open>nanoseconds on the wall clock\<close>
type_synonym Context = nat \<comment> \<open>a \<^verbatim>\<open>context.Context\<close>, kept as an opaque token\<close>
type_synonym Writer = nat \<comment> \<open>an \<^verbatim>\<open>io.Writer\<close>, named by a handle\<close>
type_synonym Metadata = "(string \<times> string) list" \<comment> \<open>a metadata map, in insertion order\<close>

section \<open>The part of \<^verbatim>\<open>log/slog\<close> the repository calls\<close>

text \<open>
  \<^verbatim>\<open>slog.Value\<close> and the dynamically typed arguments (\<^verbatim>\<open>any\<close>) the code passes to
  \<^verbatim>\<open>slog.Any\<close> and to the variadic \<^verbatim>\<open>args ...any\<close> of the logging calls.
  \<open>StringOfDuration d\<close> is the string value \<^verbatim>\<open>time.Duration(d).String()\<close>; the rendering
  of the standard library is not spelled out.
\<close>

datatype any =
    Str string
  | U64 nat
  | Err error
  | Strs "string list"
  | Meta Metadata
  | State nat
  | AttrArg string Value
and Value =
    StringValue string
  | StringOfDuration Time
  | Uint64Value nat
  | KindAny any
  | GroupValue "(string \<times> Value) list"

type_synonym Attr = "string \<times> Value"

definition slog_String :: "string \<Rightarrow> string \<Rightarrow> Attr" where
  "slog_String key v = (key, StringValue v)"

text \<open>\<^verbatim>\<open>slog.String(key, d.String())\<close> for a \<^verbatim>\<open>time.Duration\<close> \<open>d\<close>.\<close>

definition slog_String_Duration :: "string \<Rightarrow> Time \<Rightarrow> Attr" where
  "slog_String_Duration key d = (key, StringOfDuration d)"

definition slog_Uint64 :: "string \<Rightarrow> nat \<Rightarrow> Attr" where
  "slog_Uint64 key v = (key, Uint64Value v)"

definition slog_Group :: "string \<Rightarrow> Attr list \<Rightarrow> Attr" where
  "slog_Group key as = (key, GroupValue as)"

text \<open>\<^verbatim>\<open>slog.AnyValue\<close>: strings and unsigned integers get their own kind, an attribute
  list would become a group, everything else is kept as it is.\<close>

fun slog_AnyValue :: "any \<Rightarrow> Value" where
  "slog_AnyValue (Str s) = StringValue s"
| "slog_AnyValue (U64 n) = Uint64Value n"
| "slog_AnyValue v = KindAny v"

definition slog_Any :: "string \<Rightarrow> any \<Rightarrow> Attr" where
  "slog_Any key v = (key, slog_AnyValue v)"

text \<open>An attribute passed as an argument of a logging call.\<close>

fun attr :: "Attr \<Rightarrow> any" where
  "attr (k, v) = AttrArg k v"

definition badKey :: string where
  "badKey = ''!BADKEY''"

text \<open>\<^verbatim>\<open>argsToAttrSlice\<close>: an attribute stands for itself, a string is a key and takes
  the next argument as its value, a string with nothing after it and any other value
  are filed under \<^verbatim>\<open>!BADKEY\<close>.\<close>

fun argsToAttrSlice :: "any list \<Rightarrow> Attr list" where
  "argsToAttrSlice [] = []"
| "argsToAttrSlice (AttrArg k v # rest) = (k, v) # argsToAttrSlice rest"
| "argsToAttrSlice [Str x] = [(badKey, StringValue x)]"
| "argsToAttrSlice (Str k # v # rest) = (k, slog_AnyValue v) # argsToAttrSlice rest"
| "argsToAttrSlice (x # rest) = (badKey, slog_AnyValue x) # argsToAttrSlice rest"

definition LevelDebug :: int where "LevelDebug = - 4"
definition LevelInfo :: int where "LevelInfo = 0"
definition LevelWarn :: int where "LevelWarn = 4"
definition LevelError :: int where "LevelError = 8"

text \<open>A logger built by \<^verbatim>\<open>slog.New(slog.NewJSONHandler(w, &slog.HandlerOptions{Level: l}))\<close>.\<close>

record slog_Logger =
  writer :: Writer
  minLevel :: int

text \<open>One record as the handler receives it; \<^verbatim>\<open>time\<close>, \<^verbatim>\<open>level\<close> and \<^verbatim>\<open>msg\<close> are the
  fields every written line has, the attributes follow in their order.\<close>

record Record =
  r_time :: Time
  r_level :: int
  r_msg :: string
  r_attrs :: "Attr list"

text \<open>
  The world a call runs in: the clock, the calls the wrapped service has received
  (type \<open>'c\<close>, one constructor per operation), the records handed to a logger, and what
  each writer has received. \<open>emitted\<close> keeps every logging call, also one the handler's
  threshold then drops; \<open>written\<close> keeps the written lines only.
\<close>

record 'c world =
  now :: Time
  invoked :: "'c list"
  emitted :: "Record list"
  written :: "Writer \<Rightarrow> Record list"

definition Enabled :: "slog_Logger \<Rightarrow> int \<Rightarrow> bool" where
  "Enabled l lvl = (minLevel l \<le> lvl)"

definition slog_Log :: "slog_Logger \<Rightarrow> int \<Rightarrow> string \<Rightarrow> any list \<Rightarrow> 'c world \<Rightarrow> 'c world" where
  "slog_Log l lvl msg args w =
     (let r = \<lparr>r_time = now w, r_level = lvl, r_msg = msg,
                r_attrs = argsToAttrSlice args\<rparr>;
          w1 = w\<lparr>emitted := emitted w @ [r]\<rparr>
      in if Enabled l lvl
         then w1\<lparr>written := (written w1)(writer l := written w1 (writer l) @ [r])\<rparr>
         else w1)"

definition slog_Info :: "slog_Logger \<Rightarrow> string \<Rightarrow> any list \<Rightarrow> 'c world \<Rightarrow> 'c world" where
  "slog_Info l msg args w = slog_Log l LevelInfo msg args w"

definition slog_Warn :: "slog_Logger \<Rightarrow> string \<Rightarrow> any list \<Rightarrow> 'c world \<Rightarrow> 'c world" where
  "slog_Warn l msg args w = slog_Log l LevelWarn msg args w"

section \<open>Levels (package \<^verbatim>\<open>logger\<close>)\<close>

text \<open>
  Modelled from the spec: the type \<^verbatim>\<open>Level\<close> of package \<^verbatim>\<open>logger\<close>, its constants and its
  methods \<^verbatim>\<open>UnmarshalText\<close>, \<^verbatim>\<open>String\<close> and \<^verbatim>\<open>isAllowed\<close> are used by
  \<^verbatim>\<open>logger/slogger.go\<close> but their file is not among the sources. The spec gives the four
  levels in the order Debug(0) < Info(1) < Warn(2) < Error(3).
\<close>

datatype Level = Debug | Info | Warn | Error

fun rank :: "Level \<Rightarrow> nat" where
  "rank Debug = 0"
| "rank Info = 1"
| "rank Warn = 2"
| "rank Error = 3"


text \<open>Modelled from the spec: "case-insensitive" is read as folding the ASCII capitals
  onto their small letters, byte by byte.\<close>

definition toLower :: "char \<Rightarrow> char" where
  "toLower c =
     (if c = CHR ''A'' then CHR ''a'' else if c = CHR ''B'' then CHR ''b''
      else if c = CHR ''C'' then CHR ''c'' else if c = CHR ''D'' then CHR ''d''
      else if c = CHR ''E'' then CHR ''e'' else if c = CHR ''F'' then CHR ''f''
      else if c = CHR ''G'' then CHR ''g'' else if c = CHR ''H'' then CHR ''h''
      else if c = CHR ''I'' then CHR ''i'' else if c = CHR ''J'' then CHR ''j''
      else if c = CHR ''K'' then CHR ''k'' else if c = CHR ''L'' then CHR ''l''
      else if c = CHR ''M'' then CHR ''m'' else if c = CHR ''N'' then CHR ''n''
      else if c = CHR ''O'' then CHR ''o'' else if c = CHR ''P'' then CHR ''p''
      else if c = CHR ''Q'' then CHR ''q'' else if c = CHR ''R'' then CHR ''r''
      else if c = CHR ''S'' then CHR ''s'' else if c = CHR ''T'' then CHR ''t''
      else if c = CHR ''U'' then CHR ''u'' else if c = CHR ''V'' then CHR ''v''
      else if c = CHR ''W'' then CHR ''w'' else if c = CHR ''X'' then CHR ''x''
      else if c = CHR ''Y'' then CHR ''y'' else if c = CHR ''Z'' then CHR ''z''
      else c)"

text \<open>Modelled from the spec: \<^verbatim>\<open>parse(text)\<close>, a case-insensitive match against
  "debug", "info", "warn", "error"; any other text fails (\<open>None\<close>).\<close>

definition parse :: "string \<Rightarrow> Level option" where
  "parse text =
     (let t = map toLower text
      in if t = ''debug'' then Some Debug
         else if t = ''info'' then Some Info
         else if t = ''warn'' then Some Warn
         else if t = ''error'' then Some Error
         else None)"

text \<open>Modelled from the spec: \<^verbatim>\<open>Level.UnmarshalText\<close> is \<^verbatim>\<open>parse\<close>; the error value it
  fails with is declared beside it, outside the sources, and is the parameter
  \<open>parseError\<close>.\<close>

definition UnmarshalText :: "error \<Rightarrow> string \<Rightarrow> error + Level" where
  "UnmarshalText parseError text =
     (case parse text of None \<Rightarrow> Inl parseError | Some l \<Rightarrow> Inr l)"

text \<open>Modelled from the spec: \<^verbatim>\<open>isAtLeast(candidate, threshold)\<close>, true iff the
  candidate's rank is at least the threshold's (\<^verbatim>\<open>Level.isAllowed\<close>, not among the sources).\<close>

definition isAllowed :: "Level \<Rightarrow> Level \<Rightarrow> bool" where
  "isAllowed lvl logLevel = (rank logLevel \<le> rank lvl)"

section \<open>The logger (\<^verbatim>\<open>logger/slogger.go\<close>, \<^verbatim>\<open>logger/logger.go\<close>)\<close>

record logger =
  sLogger :: slog_Logger
  level :: Level

text \<open>\<^verbatim>\<open>time.RFC3339Nano\<close>, a layout string of the standard library.\<close>

definition RFC3339Nano :: string where
  "RFC3339Nano = ''2006-01-02T15:04:05.999999999Z07:00''"

text \<open>The \<^verbatim>\<open>fmt.Errorf\<close> call both constructors make: three \<^verbatim>\<open>%s\<close> verbs filled with
  the parse error, the level text and \<^verbatim>\<open>time.RFC3339Nano\<close>.\<close>

definition levelError :: "error \<Rightarrow> string \<Rightarrow> error" where
  \<open>levelError err levelText =
     errorString (''{"level":"error","message":"'' @ err_Error err @ '': '' @ levelText
                  @ ''","ts":"'' @ RFC3339Nano @ ''"}'')\<close>

text \<open>\<^verbatim>\<open>New\<close> of \<^verbatim>\<open>logger/slogger.go\<close>: the handler lets every level through
  (\<^verbatim>\<open>slog.LevelDebug\<close>), the threshold is kept in the \<^verbatim>\<open>logger\<close> itself.\<close>

definition New :: "error \<Rightarrow> Writer \<Rightarrow> string \<Rightarrow> error + logger" where
  "New parseError w levelText =
     (case UnmarshalText parseError levelText of
        Inl err \<Rightarrow> Inl (levelError err levelText)
      | Inr lvl \<Rightarrow> Inr \<lparr>sLogger = \<lparr>writer = w, minLevel = LevelDebug\<rparr>, level = lvl\<rparr>)"

text \<open>\<^verbatim>\<open>New\<close> of \<^verbatim>\<open>logger/logger.go\<close>: the level is a \<^verbatim>\<open>slog.Level\<close>, parsed by the
  standard library (the parameter \<open>unmarshal\<close>), and becomes the handler's threshold. On
  failure the Go function returns an empty \<^verbatim>\<open>&slog.Logger{}\<close> beside the error; the
  model keeps the error.\<close>

definition New_slog :: "(string \<Rightarrow> error + int) \<Rightarrow> Writer \<Rightarrow> string \<Rightarrow> error + slog_Logger" where
  "New_slog unmarshal w levelText =
     (case unmarshal levelText of
        Inl err \<Rightarrow> Inl (levelError err levelText)
      | Inr lvl \<Rightarrow> Inr \<lparr>writer = w, minLevel = lvl\<rparr>)"

definition logger_Debug :: "logger \<Rightarrow> Context \<Rightarrow> string \<Rightarrow> 'c world \<Rightarrow> 'c world" where
  "logger_Debug l ctx msg w =
     (if isAllowed Debug (level l) then slog_Log (sLogger l) LevelDebug ''msg'' [Str msg] w else w)"

definition logger_Info :: "logger \<Rightarrow> Context \<Rightarrow> string \<Rightarrow> 'c world \<Rightarrow> 'c world" where
  "logger_Info l ctx msg w =
     (if isAllowed Info (level l) then slog_Log (sLogger l) LevelInfo msg [] w else w)"

definition logger_Warn :: "logger \<Rightarrow> Context \<Rightarrow> string \<Rightarrow> 'c world \<Rightarrow> 'c world" where
  "logger_Warn l ctx msg w =
     (if isAllowed Warn (level l) then slog_Log (sLogger l) LevelWarn msg [] w else w)"

definition logger_Error :: "logger \<Rightarrow> Context \<Rightarrow> string \<Rightarrow> 'c world \<Rightarrow> 'c world" where
  "logger_Error l ctx msg w =
     (if isAllowed Error (level l) then slog_Log (sLogger l) LevelError msg [] w else w)"

text \<open>The four severity operations under one name, and the \<^verbatim>\<open>slog\<close> level each one logs at.\<close>

fun logger_op :: "Level \<Rightarrow> logger \<Rightarrow> Context \<Rightarrow> string \<Rightarrow> 'c world \<Rightarrow> 'c world" where
  "logger_op Debug = logger_Debug"
| "logger_op Info = logger_Info"
| "logger_op Warn = logger_Warn"
| "logger_op Error = logger_Error"

fun slog_Level :: "Level \<Rightarrow> int" where
  "slog_Level Debug = LevelDebug"
| "slog_Level Info = LevelInfo"
| "slog_Level Warn = LevelWarn"
| "slog_Level Error = LevelError"


section \<open>What the logging middlewares share\<close>

text \<open>
  A call either returns its results or panics. The wrapped service answers a call with
  its result, its error (\<open>None\<close> for \<^verbatim>\<open>nil\<close>) and the time the call took. A pointer
  result is an \<open>option\<close>, \<open>None\<close> for \<^verbatim>\<open>nil\<close>; an operation that returns an error only
  has the result type \<open>unit\<close>.
\<close>

datatype 'a outcome = Returned 'a | Panicked

type_synonym 'r reply = "'r \<times> error option \<times> Time"

text \<open>\<^verbatim>\<open>type loggingMiddleware struct { logger *slog.Logger; svc S }\<close>, the same in
  every package; \<open>'s\<close> is the interface of the wrapped service.\<close>

record 's loggingMiddleware =
  logger :: slog_Logger
  svc :: 's

definition LoggingMiddleware :: "'s \<Rightarrow> slog_Logger \<Rightarrow> 's loggingMiddleware" where
  "LoggingMiddleware s l = \<lparr>logger = l, svc = s\<rparr>"

text \<open>The wrapped service receives the call \<open>c\<close> and returns after \<open>took\<close> nanoseconds.\<close>

definition invoke :: "'c \<Rightarrow> Time \<Rightarrow> 'c world \<Rightarrow> 'c world" where
  "invoke c took w = w\<lparr>now := now w + took, invoked := invoked w @ [c]\<rparr>"

text \<open>\<^verbatim>\<open>time.Since(begin)\<close>.\<close>

definition Since :: "Time \<Rightarrow> 'c world \<Rightarrow> Time" where
  "Since begin w = now w - begin"

text \<open>\<^verbatim>\<open>fmt.Sprintf("%v", tags)\<close> for a slice of strings: the elements between brackets,
  separated by one space.\<close>

fun join_space :: "string list \<Rightarrow> string" where
  "join_space [] = []"
| "join_space [x] = x"
| "join_space (x # xs) = x @ '' '' @ join_space xs"

definition Sprintf_v :: "string list \<Rightarrow> string" where
  "Sprintf_v xs = ''['' @ join_space xs @ '']''"

text \<open>Relabelling a result, to speak of the operations of one service together.\<close>

definition tag :: "('a \<Rightarrow> 'b) \<Rightarrow> 'a reply \<Rightarrow> 'b reply" where
  "tag f rep = (case rep of (r, err, took) \<Rightarrow> (f r, err, took))"

fun tagged :: "('a \<Rightarrow> 'b) \<Rightarrow> ('a \<times> error option) outcome \<times> 'w \<Rightarrow> ('b \<times> error option) outcome \<times> 'w" where
  "tagged f (Returned (r, err), w) = (Returned (f r, err), w)"
| "tagged f (Panicked, w) = (Panicked, w)"

section \<open>The users middleware (package \<^verbatim>\<open>api\<close> over \<^verbatim>\<open>users.Service\<close>, \<^verbatim>\<open>unnamed/part_000\<close>)\<close>

text \<open>
  The types \<^verbatim>\<open>mgclients.Client\<close>, \<^verbatim>\<open>mgclients.Page\<close>, \<^verbatim>\<open>magistrala.Token\<close> and the page
  types are declared outside the sources. The records carry the fields the middleware
  reads (and one more, so that values differ); a role is kept as the text its
  \<^verbatim>\<open>String\<close> method renders; the unsigned 64-bit bounds are natural numbers, which the
  middleware only copies.
\<close>

record Client =
  ID :: string
  Name :: string
  Tags :: "string list"
  Metadata :: Metadata
  Role :: string

record Page =
  Offset :: nat
  Limit :: nat

record Token =
  AccessToken :: string
  AccessType :: string

datatype ClientsPage = ClientsPage "Client list"

datatype MembersPage = MembersPage "Client list"

text \<open>One constructor per operation of \<^verbatim>\<open>users.Service\<close>, with the arguments of the call;
  the interface itself, one function per operation.\<close>

datatype users_call =
    Call_RegisterClient Context string Client
  | Call_IssueToken Context string string string
  | Call_RefreshToken Context string string
  | Call_ViewClient Context string string
  | Call_ViewProfile Context string
  | Call_ListClients Context string Page
  | Call_UpdateClient Context string Client
  | Call_UpdateClientTags Context string Client
  | Call_UpdateClientIdentity Context string string string
  | Call_UpdateClientSecret Context string string string
  | Call_GenerateResetToken Context string string
  | Call_ResetSecret Context string string
  | Call_SendPasswordReset Context string string string string
  | Call_UpdateClientRole Context string Client
  | Call_EnableClient Context string string
  | Call_DisableClient Context string string
  | Call_ListMembers Context string string string Page
  | Call_Identify Context string

record users_Service =
  svc_RegisterClient :: "Context \<Rightarrow> string \<Rightarrow> Client \<Rightarrow> Client reply"
  svc_IssueToken :: "Context \<Rightarrow> string \<Rightarrow> string \<Rightarrow> string \<Rightarrow> (Token option) reply"
  svc_RefreshToken :: "Context \<Rightarrow> string \<Rightarrow> string \<Rightarrow> (Token option) reply"
  svc_ViewClient :: "Context \<Rightarrow> string \<Rightarrow> string \<Rightarrow> Client reply"
  svc_ViewProfile :: "Context \<Rightarrow> string \<Rightarrow> Client reply"
  svc_ListClients :: "Context \<Rightarrow> string \<Rightarrow> Page \<Rightarrow> ClientsPage reply"
  svc_UpdateClient :: "Context \<Rightarrow> string \<Rightarrow> Client \<Rightarrow> Client reply"
  svc_UpdateClientTags :: "Context \<Rightarrow> string \<Rightarrow> Client \<Rightarrow> Client reply"
  svc_UpdateClientIdentity :: "Context \<Rightarrow> string \<Rightarrow> string \<Rightarrow> string \<Rightarrow> Client reply"
  svc_UpdateClientSecret :: "Context \<Rightarrow> string \<Rightarrow> string \<Rightarrow> string \<Rightarrow> Client reply"
  svc_GenerateResetToken :: "Context \<Rightarrow> string \<Rightarrow> string \<Rightarrow> unit reply"
  svc_ResetSecret :: "Context \<Rightarrow> string \<Rightarrow> string \<Rightarrow> unit reply"
  svc_SendPasswordReset :: "Context \<Rightarrow> string \<Rightarrow> string \<Rightarrow> string \<Rightarrow> string \<Rightarrow> unit reply"
  svc_UpdateClientRole :: "Context \<Rightarrow> string \<Rightarrow> Client \<Rightarrow> Client reply"
  svc_EnableClient :: "Context \<Rightarrow> string \<Rightarrow> string \<Rightarrow> Client reply"
  svc_DisableClient :: "Context \<Rightarrow> string \<Rightarrow> string \<Rightarrow> Client reply"
  svc_ListMembers :: "Context \<Rightarrow> string \<Rightarrow> string \<Rightarrow> string \<Rightarrow> Page \<Rightarrow> MembersPage reply"
  svc_Identify :: "Context \<Rightarrow> string \<Rightarrow> string reply"

text \<open>The group \<^verbatim>\<open>user\<close> is read from the returned client.\<close>

definition RegisterClient ::
  "users_Service loggingMiddleware \<Rightarrow> Context \<Rightarrow> string \<Rightarrow> Client \<Rightarrow> users_call world
     \<Rightarrow> (Client \<times> error option) outcome \<times> users_call world" where
  "RegisterClient lm ctx token client w =
     (let begin = now w;
          (c, err, took) = svc_RegisterClient (svc lm) ctx token client;
          w1 = invoke (Call_RegisterClient ctx token client) took w;
          args = [attr (slog_String_Duration ''duration'' (Since begin w1)),
                  attr (slog_Group ''user'' [slog_String ''name'' (Name c), slog_String ''id'' (ID c)])]
      in case err of
           Some e \<Rightarrow>
             (Returned (c, err),
              slog_Warn (logger lm) ''Register client failed to complete successfully''
                (args @ [attr (slog_Any ''error'' (Err e))]) w1)
         | None \<Rightarrow>
             (Returned (c, err),
              slog_Info (logger lm) ''Register client completed successfully'' args w1))"

text \<open>\<^verbatim>\<open>t.AccessType\<close> is read through the returned pointer before the error is looked at:
  a \<^verbatim>\<open>nil\<close> token panics in the deferred function, after the service has answered and
  before anything is logged.\<close>

definition IssueToken ::
  "users_Service loggingMiddleware \<Rightarrow> Context \<Rightarrow> string \<Rightarrow> string \<Rightarrow> string \<Rightarrow> users_call world
     \<Rightarrow> (Token option \<times> error option) outcome \<times> users_call world" where
  "IssueToken lm ctx identity secret domainID w =
     (let begin = now w;
          (t, err, took) = svc_IssueToken (svc lm) ctx identity secret domainID;
          w1 = invoke (Call_IssueToken ctx identity secret domainID) took w;
          args = [attr (slog_String_Duration ''duration'' (Since begin w1)),
                  attr (slog_String ''domain_id'' domainID)]
      in case t of
           None \<Rightarrow> (Panicked, w1)
         | Some tk \<Rightarrow>
             (let args = (if AccessType tk \<noteq> ''''
                          then args @ [Str ''access_type'', Str (AccessType tk)] else args)
              in case err of
                   Some e \<Rightarrow>
                     (Returned (t, err),
                      slog_Warn (logger lm) ''Issue token failed to complete successfully''
                        (args @ [attr (slog_Any ''error'' (Err e))]) w1)
                 | None \<Rightarrow>
                     (Returned (t, err),
                      slog_Info (logger lm) ''Issue token completed successfully'' args w1)))"

text \<open>As \<^verbatim>\<open>IssueToken\<close>.\<close>

definition RefreshToken ::
  "users_Service loggingMiddleware \<Rightarrow> Context \<Rightarrow> string \<Rightarrow> string \<Rightarrow> users_call world
     \<Rightarrow> (Token option \<times> error option) outcome \<times> users_call world" where
  "RefreshToken lm ctx refreshToken domainID w =
     (let begin = now w;
          (t, err, took) = svc_RefreshToken (svc lm) ctx refreshToken domainID;
          w1 = invoke (Call_RefreshToken ctx refreshToken domainID) took w;
          args = [attr (slog_String_Duration ''duration'' (Since begin w1)),
                  attr (slog_String ''domain_id'' domainID)]
      in case t of
           None \<Rightarrow> (Panicked, w1)
         | Some tk \<Rightarrow>
             (let args = (if AccessType tk \<noteq> ''''
                          then args @ [Str ''access_type'', Str (AccessType tk)] else args)
              in case err of
                   Some e \<Rightarrow>
                     (Returned (t, err),
                      slog_Warn (logger lm) ''Refresh token failed to complete successfully''
                        (args @ [attr (slog_Any ''error'' (Err e))]) w1)
                 | None \<Rightarrow>
                     (Returned (t, err),
                      slog_Info (logger lm) ''Refresh token completed successfully'' args w1)))"

text \<open>The name is the returned client's, the id is the argument.\<close>

definition ViewClient ::
  "users_Service loggingMiddleware \<Rightarrow> Context \<Rightarrow> string \<Rightarrow> string \<Rightarrow> users_call world
     \<Rightarrow> (Client \<times> error option) outcome \<times> users_call world" where
  "ViewClient lm ctx token id' w =
     (let begin = now w;
          (c, err, took) = svc_ViewClient (svc lm) ctx token id';
          w1 = invoke (Call_ViewClient ctx token id') took w;
          args = [attr (slog_String_Duration ''duration'' (Since begin w1)),
                  attr (slog_Group ''user'' [slog_String ''name'' (Name c), slog_String ''id'' id'])]
      in case err of
           Some e \<Rightarrow>
             (Returned (c, err),
              slog_Warn (logger lm) ''View client failed to complete successfully''
                (args @ [attr (slog_Any ''error'' (Err e))]) w1)
         | None \<Rightarrow>
             (Returned (c, err),
              slog_Info (logger lm) ''View client completed successfully'' args w1))"

text \<open>The group \<^verbatim>\<open>user\<close> is read from the returned client.\<close>

definition ViewProfile ::
  "users_Service loggingMiddleware \<Rightarrow> Context \<Rightarrow> string \<Rightarrow> users_call world
     \<Rightarrow> (Client \<times> error option) outcome \<times> users_call world" where
  "ViewProfile lm ctx token w =
     (let begin = now w;
          (c, err, took) = svc_ViewProfile (svc lm) ctx token;
          w1 = invoke (Call_ViewProfile ctx token) took w;
          args = [attr (slog_String_Duration ''duration'' (Since begin w1)),
                  attr (slog_Group ''user'' [slog_String ''name'' (Name c), slog_String ''id'' (ID c)])]
      in case err of
           Some e \<Rightarrow>
             (Returned (c, err),
              slog_Warn (logger lm) ''View profile failed to complete successfully''
                (args @ [attr (slog_Any ''error'' (Err e))]) w1)
         | None \<Rightarrow>
             (Returned (c, err),
              slog_Info (logger lm) ''View profile completed successfully'' args w1))"

text \<open>The page bounds are the arguments.\<close>

definition ListClients ::
  "users_Service loggingMiddleware \<Rightarrow> Context \<Rightarrow> string \<Rightarrow> Page \<Rightarrow> users_call world
     \<Rightarrow> (ClientsPage \<times> error option) outcome \<times> users_call world" where
  "ListClients lm ctx token pm w =
     (let begin = now w;
          (cp, err, took) = svc_ListClients (svc lm) ctx token pm;
          w1 = invoke (Call_ListClients ctx token pm) took w;
          args = [attr (slog_String_Duration ''duration'' (Since begin w1)),
                  attr (slog_Group ''page'' [slog_Any ''limit'' (U64 (Limit pm)), slog_Any ''offset'' (U64 (Offset pm))])]
      in case err of
           Some e \<Rightarrow>
             (Returned (cp, err),
              slog_Warn (logger lm) ''List clients failed to complete successfully''
                (args @ [attr (slog_Any ''error'' (Err e))]) w1)
         | None \<Rightarrow>
             (Returned (cp, err),
              slog_Info (logger lm) ''List clients completed successfully'' args w1))"

text \<open>Name, id and metadata are read from the returned client.\<close>

definition UpdateClient ::
  "users_Service loggingMiddleware \<Rightarrow> Context \<Rightarrow> string \<Rightarrow> Client \<Rightarrow> users_call world
     \<Rightarrow> (Client \<times> error option) outcome \<times> users_call world" where
  "UpdateClient lm ctx token client w =
     (let begin = now w;
          (c, err, took) = svc_UpdateClient (svc lm) ctx token client;
          w1 = invoke (Call_UpdateClient ctx token client) took w;
          args = [attr (slog_String_Duration ''duration'' (Since begin w1)),
                  attr (slog_Group ''user'' [slog_String ''name'' (Name c), slog_String ''id'' (ID c)]),
                  attr (slog_Any ''metadata'' (Meta (Metadata c)))]
      in case err of
           Some e \<Rightarrow>
             (Returned (c, err),
              slog_Warn (logger lm) ''Update client failed to complete successfully''
                (args @ [attr (slog_Any ''error'' (Err e))]) w1)
         | None \<Rightarrow>
             (Returned (c, err),
              slog_Info (logger lm) ''Update client completed successfully'' args w1))"

text \<open>Id and tags are read from the returned client.\<close>

definition UpdateClientTags ::
  "users_Service loggingMiddleware \<Rightarrow> Context \<Rightarrow> string \<Rightarrow> Client \<Rightarrow> users_call world
     \<Rightarrow> (Client \<times> error option) outcome \<times> users_call world" where
  "UpdateClientTags lm ctx token client w =
     (let begin = now w;
          (c, err, took) = svc_UpdateClientTags (svc lm) ctx token client;
          w1 = invoke (Call_UpdateClientTags ctx token client) took w;
          args = [attr (slog_String_Duration ''duration'' (Since begin w1)),
                  attr (slog_Group ''user'' [slog_String ''id'' (ID c), slog_String ''tags'' (Sprintf_v (Tags c))])]
      in case err of
           Some e \<Rightarrow>
             (Returned (c, err),
              slog_Warn (logger lm) ''Update client tags failed to complete successfully''
                (args @ [attr (slog_Any ''error'' (Err e))]) w1)
         | None \<Rightarrow>
             (Returned (c, err),
              slog_Info (logger lm) ''Update client tags completed successfully'' args w1))"

text \<open>The id is the returned client's, the identity is the argument.\<close>

definition UpdateClientIdentity ::
  "users_Service loggingMiddleware \<Rightarrow> Context \<Rightarrow> string \<Rightarrow> string \<Rightarrow> string \<Rightarrow> users_call world
     \<Rightarrow> (Client \<times> error option) outcome \<times> users_call world" where
  "UpdateClientIdentity lm ctx token id' identity w =
     (let begin = now w;
          (c, err, took) = svc_UpdateClientIdentity (svc lm) ctx token id' identity;
          w1 = invoke (Call_UpdateClientIdentity ctx token id' identity) took w;
          args = [attr (slog_String_Duration ''duration'' (Since begin w1)),
                  attr (slog_Group ''user'' [slog_String ''id'' (ID c), slog_String ''identity'' identity])]
      in case err of
           Some e \<Rightarrow>
             (Returned (c, err),
              slog_Warn (logger lm) ''Update client identity failed to complete successfully''
                (args @ [attr (slog_Any ''error'' (Err e))]) w1)
         | None \<Rightarrow>
             (Returned (c, err),
              slog_Info (logger lm) ''Update client identity completed successfully'' args w1))"

text \<open>Id and name are read from the returned client.\<close>

definition UpdateClientSecret ::
  "users_Service loggingMiddleware \<Rightarrow> Context \<Rightarrow> string \<Rightarrow> string \<Rightarrow> string \<Rightarrow> users_call world
     \<Rightarrow> (Client \<times> error option) outcome \<times> users_call world" where
  "UpdateClientSecret lm ctx token oldSecret newSecret w =
     (let begin = now w;
          (c, err, took) = svc_UpdateClientSecret (svc lm) ctx token oldSecret newSecret;
          w1 = invoke (Call_UpdateClientSecret ctx token oldSecret newSecret) took w;
          args = [attr (slog_String_Duration ''duration'' (Since begin w1)),
                  attr (slog_Group ''user'' [slog_String ''id'' (ID c), slog_String ''name'' (Name c)])]
      in case err of
           Some e \<Rightarrow>
             (Returned (c, err),
              slog_Warn (logger lm) ''Update client secret failed to complete successfully''
                (args @ [attr (slog_Any ''error'' (Err e))]) w1)
         | None \<Rightarrow>
             (Returned (c, err),
              slog_Info (logger lm) ''Update client secret completed successfully'' args w1))"

text \<open>Only the duration is logged.\<close>

definition GenerateResetToken ::
  "users_Service loggingMiddleware \<Rightarrow> Context \<Rightarrow> string \<Rightarrow> string \<Rightarrow> users_call world
     \<Rightarrow> (unit \<times> error option) outcome \<times> users_call world" where
  "GenerateResetToken lm ctx email host w =
     (let begin = now w;
          (u, err, took) = svc_GenerateResetToken (svc lm) ctx email host;
          w1 = invoke (Call_GenerateResetToken ctx email host) took w;
          args = [attr (slog_String_Duration ''duration'' (Since begin w1))]
      in case err of
           Some e \<Rightarrow>
             (Returned ((), err),
              slog_Warn (logger lm) ''Generate reset token failed to complete successfully''
                (args @ [attr (slog_Any ''error'' (Err e))]) w1)
         | None \<Rightarrow>
             (Returned ((), err),
              slog_Info (logger lm) ''Generate reset token completed successfully'' args w1))"

text \<open>Only the duration is logged.\<close>

definition ResetSecret ::
  "users_Service loggingMiddleware \<Rightarrow> Context \<Rightarrow> string \<Rightarrow> string \<Rightarrow> users_call world
     \<Rightarrow> (unit \<times> error option) outcome \<times> users_call world" where
  "ResetSecret lm ctx token secret w =
     (let begin = now w;
          (u, err, took) = svc_ResetSecret (svc lm) ctx token secret;
          w1 = invoke (Call_ResetSecret ctx token secret) took w;
          args = [attr (slog_String_Duration ''duration'' (Since begin w1))]
      in case err of
           Some e \<Rightarrow>
             (Returned ((), err),
              slog_Warn (logger lm) ''Reset secret failed to complete successfully''
                (args @ [attr (slog_Any ''error'' (Err e))]) w1)
         | None \<Rightarrow>
             (Returned ((), err),
              slog_Info (logger lm) ''Reset secret completed successfully'' args w1))"

text \<open>Only the duration is logged.\<close>

definition SendPasswordReset ::
  "users_Service loggingMiddleware \<Rightarrow> Context \<Rightarrow> string \<Rightarrow> string \<Rightarrow> string \<Rightarrow> string \<Rightarrow> users_call world
     \<Rightarrow> (unit \<times> error option) outcome \<times> users_call world" where
  "SendPasswordReset lm ctx host email user token w =
     (let begin = now w;
          (u, err, took) = svc_SendPasswordReset (svc lm) ctx host email user token;
          w1 = invoke (Call_SendPasswordReset ctx host email user token) took w;
          args = [attr (slog_String_Duration ''duration'' (Since begin w1))]
      in case err of
           Some e \<Rightarrow>
             (Returned ((), err),
              slog_Warn (logger lm) ''Send password reset failed to complete successfully''
                (args @ [attr (slog_Any ''error'' (Err e))]) w1)
         | None \<Rightarrow>
             (Returned ((), err),
              slog_Info (logger lm) ''Send password reset completed successfully'' args w1))"

text \<open>The id is the returned client's, the role is the argument's.\<close>

definition UpdateClientRole ::
  "users_Service loggingMiddleware \<Rightarrow> Context \<Rightarrow> string \<Rightarrow> Client \<Rightarrow> users_call world
     \<Rightarrow> (Client \<times> error option) outcome \<times> users_call world" where
  "UpdateClientRole lm ctx token client w =
     (let begin = now w;
          (c, err, took) = svc_UpdateClientRole (svc lm) ctx token client;
          w1 = invoke (Call_UpdateClientRole ctx token client) took w;
          args = [attr (slog_String_Duration ''duration'' (Since begin w1)),
                  attr (slog_Group ''user'' [slog_String ''id'' (ID c), slog_String ''role'' (Role client)])]
      in case err of
           Some e \<Rightarrow>
             (Returned (c, err),
              slog_Warn (logger lm) ''Update client role failed to complete successfully''
                (args @ [attr (slog_Any ''error'' (Err e))]) w1)
         | None \<Rightarrow>
             (Returned (c, err),
              slog_Info (logger lm) ''Update client role completed successfully'' args w1))"

text \<open>The id is read from the returned client.\<close>

definition EnableClient ::
  "users_Service loggingMiddleware \<Rightarrow> Context \<Rightarrow> string \<Rightarrow> string \<Rightarrow> users_call world
     \<Rightarrow> (Client \<times> error option) outcome \<times> users_call world" where
  "EnableClient lm ctx token id' w =
     (let begin = now w;
          (c, err, took) = svc_EnableClient (svc lm) ctx token id';
          w1 = invoke (Call_EnableClient ctx token id') took w;
          args = [attr (slog_String_Duration ''duration'' (Since begin w1)),
                  attr (slog_String ''id'' (ID c))]
      in case err of
           Some e \<Rightarrow>
             (Returned (c, err),
              slog_Warn (logger lm) ''Enable client failed to complete successfully''
                (args @ [attr (slog_Any ''error'' (Err e))]) w1)
         | None \<Rightarrow>
             (Returned (c, err),
              slog_Info (logger lm) ''Enable client completed successfully'' args w1))"

text \<open>The id is read from the returned client.\<close>

definition DisableClient ::
  "users_Service loggingMiddleware \<Rightarrow> Context \<Rightarrow> string \<Rightarrow> string \<Rightarrow> users_call world
     \<Rightarrow> (Client \<times> error option) outcome \<times> users_call world" where
  "DisableClient lm ctx token id' w =
     (let begin = now w;
          (c, err, took) = svc_DisableClient (svc lm) ctx token id';
          w1 = invoke (Call_DisableClient ctx token id') took w;
          args = [attr (slog_String_Duration ''duration'' (Since begin w1)),
                  attr (slog_String ''id'' (ID c))]
      in case err of
           Some e \<Rightarrow>
             (Returned (c, err),
              slog_Warn (logger lm) ''Disable client failed to complete successfully''
                (args @ [attr (slog_Any ''error'' (Err e))]) w1)
         | None \<Rightarrow>
             (Returned (c, err),
              slog_Info (logger lm) ''Disable client completed successfully'' args w1))"

text \<open>Object kind, object id and page bounds are the arguments.\<close>

definition ListMembers ::
  "users_Service loggingMiddleware \<Rightarrow> Context \<Rightarrow> string \<Rightarrow> string \<Rightarrow> string \<Rightarrow> Page \<Rightarrow> users_call world
     \<Rightarrow> (MembersPage \<times> error option) outcome \<times> users_call world" where
  "ListMembers lm ctx token objectKind objectID cp w =
     (let begin = now w;
          (mp, err, took) = svc_ListMembers (svc lm) ctx token objectKind objectID cp;
          w1 = invoke (Call_ListMembers ctx token objectKind objectID cp) took w;
          args = [attr (slog_String_Duration ''duration'' (Since begin w1)),
                  attr (slog_String ''object_kind'' objectKind),
                  attr (slog_String ''object_id'' objectID),
                  attr (slog_Group ''page'' [slog_Any ''limit'' (U64 (Limit cp)), slog_Any ''offset'' (U64 (Offset cp))])]
      in case err of
           Some e \<Rightarrow>
             (Returned (mp, err),
              slog_Warn (logger lm) ''List members failed to complete successfully''
                (args @ [attr (slog_Any ''error'' (Err e))]) w1)
         | None \<Rightarrow>
             (Returned (mp, err),
              slog_Info (logger lm) ''List members completed successfully'' args w1))"

text \<open>Only the duration is logged.\<close>

definition Identify ::
  "users_Service loggingMiddleware \<Rightarrow> Context \<Rightarrow> string \<Rightarrow> users_call world
     \<Rightarrow> (string \<times> error option) outcome \<times> users_call world" where
  "Identify lm ctx token w =
     (let begin = now w;
          (id', err, took) = svc_Identify (svc lm) ctx token;
          w1 = invoke (Call_Identify ctx token) took w;
          args = [attr (slog_String_Duration ''duration'' (Since begin w1))]
      in case err of
           Some e \<Rightarrow>
             (Returned (id', err),
              slog_Warn (logger lm) ''Identify failed to complete successfully''
                (args @ [attr (slog_Any ''error'' (Err e))]) w1)
         | None \<Rightarrow>
             (Returned (id', err),
              slog_Info (logger lm) ''Identify completed successfully'' args w1))"

text \<open>The operations of the users middleware under one name: the result types are joined in one
  type, \<open>users_answer\<close> is what the wrapped service answers to a call, \<open>users_serve\<close> is the
  middleware's method for it, \<open>users_operation\<close> is the operation's name as its two messages
  spell it.\<close>

datatype users_result = Client_result Client | Token_result "Token option" | ClientsPage_result ClientsPage | MembersPage_result MembersPage | string_result string | no_result

fun users_answer :: "users_Service \<Rightarrow> users_call \<Rightarrow> users_result reply" where
  "users_answer s (Call_RegisterClient ctx token client) = tag Client_result (svc_RegisterClient s ctx token client)"
| "users_answer s (Call_IssueToken ctx identity secret domainID) = tag Token_result (svc_IssueToken s ctx identity secret domainID)"
| "users_answer s (Call_RefreshToken ctx refreshToken domainID) = tag Token_result (svc_RefreshToken s ctx refreshToken domainID)"
| "users_answer s (Call_ViewClient ctx token id') = tag Client_result (svc_ViewClient s ctx token id')"
| "users_answer s (Call_ViewProfile ctx token) = tag Client_result (svc_ViewProfile s ctx token)"
| "users_answer s (Call_ListClients ctx token pm) = tag ClientsPage_result (svc_ListClients s ctx token pm)"
| "users_answer s (Call_UpdateClient ctx token client) = tag Client_result (svc_UpdateClient s ctx token client)"
| "users_answer s (Call_UpdateClientTags ctx token client) = tag Client_result (svc_UpdateClientTags s ctx token client)"
| "users_answer s (Call_UpdateClientIdentity ctx token id' identity) = tag Client_result (svc_UpdateClientIdentity s ctx token id' identity)"
| "users_answer s (Call_UpdateClientSecret ctx token oldSecret newSecret) = tag Client_result (svc_UpdateClientSecret s ctx token oldSecret newSecret)"
| "users_answer s (Call_GenerateResetToken ctx email host) = tag (\<lambda>_. no_result) (svc_GenerateResetToken s ctx email host)"
| "users_answer s (Call_ResetSecret ctx token secret) = tag (\<lambda>_. no_result) (svc_ResetSecret s ctx token secret)"
| "users_answer s (Call_SendPasswordReset ctx host email user token) = tag (\<lambda>_. no_result) (svc_SendPasswordReset s ctx host email user token)"
| "users_answer s (Call_UpdateClientRole ctx token client) = tag Client_result (svc_UpdateClientRole s ctx token client)"
| "users_answer s (Call_EnableClient ctx token id') = tag Client_result (svc_EnableClient s ctx token id')"
| "users_answer s (Call_DisableClient ctx token id') = tag Client_result (svc_DisableClient s ctx token id')"
| "users_answer s (Call_ListMembers ctx token objectKind objectID cp) = tag MembersPage_result (svc_ListMembers s ctx token objectKind objectID cp)"
| "users_answer s (Call_Identify ctx token) = tag string_result (svc_Identify s ctx token)"

fun users_serve ::
  "users_Service loggingMiddleware \<Rightarrow> users_call \<Rightarrow> users_call world
     \<Rightarrow> (users_result \<times> error option) outcome \<times> users_call world" where
  "users_serve lm (Call_RegisterClient ctx token client) w = tagged Client_result (RegisterClient lm ctx token client w)"
| "users_serve lm (Call_IssueToken ctx identity secret domainID) w = tagged Token_result (IssueToken lm ctx identity secret domainID w)"
| "users_serve lm (Call_RefreshToken ctx refreshToken domainID) w = tagged Token_result (RefreshToken lm ctx refreshToken domainID w)"
| "users_serve lm (Call_ViewClient ctx token id') w = tagged Client_result (ViewClient lm ctx token id' w)"
| "users_serve lm (Call_ViewProfile ctx token) w = tagged Client_result (ViewProfile lm ctx token w)"
| "users_serve lm (Call_ListClients ctx token pm) w = tagged ClientsPage_result (ListClients lm ctx token pm w)"
| "users_serve lm (Call_UpdateClient ctx token client) w = tagged Client_result (UpdateClient lm ctx token client w)"
| "users_serve lm (Call_UpdateClientTags ctx token client) w = tagged Client_result (UpdateClientTags lm ctx token client w)"
| "users_serve lm (Call_UpdateClientIdentity ctx token id' identity) w = tagged Client_result (UpdateClientIdentity lm ctx token id' identity w)"
| "users_serve lm (Call_UpdateClientSecret ctx token oldSecret newSecret) w = tagged Client_result (UpdateClientSecret lm ctx token oldSecret newSecret w)"
| "users_serve lm (Call_GenerateResetToken ctx email host) w = tagged (\<lambda>_. no_result) (GenerateResetToken lm ctx email host w)"
| "users_serve lm (Call_ResetSecret ctx token secret) w = tagged (\<lambda>_. no_result) (ResetSecret lm ctx token secret w)"
| "users_serve lm (Call_SendPasswordReset ctx host email user token) w = tagged (\<lambda>_. no_result) (SendPasswordReset lm ctx host email user token w)"
| "users_serve lm (Call_UpdateClientRole ctx token client) w = tagged Client_result (UpdateClientRole lm ctx token client w)"
| "users_serve lm (Call_EnableClient ctx token id') w = tagged Client_result (EnableClient lm ctx token id' w)"
| "users_serve lm (Call_DisableClient ctx token id') w = tagged Client_result (DisableClient lm ctx token id' w)"
| "users_serve lm (Call_ListMembers ctx token objectKind objectID cp) w = tagged MembersPage_result (ListMembers lm ctx token objectKind objectID cp w)"
| "users_serve lm (Call_Identify ctx token) w = tagged string_result (Identify lm ctx token w)"

fun users_operation :: "users_call \<Rightarrow> string" where
  "users_operation (Call_RegisterClient ctx token client) = ''Register client''"
| "users_operation (Call_IssueToken ctx identity secret domainID) = ''Issue token''"
| "users_operation (Call_RefreshToken ctx refreshToken domainID) = ''Refresh token''"
| "users_operation (Call_ViewClient ctx token id') = ''View client''"
| "users_operation (Call_ViewProfile ctx token) = ''View profile''"
| "users_operation (Call_ListClients ctx token pm) = ''List clients''"
| "users_operation (Call_UpdateClient ctx token client) = ''Update client''"
| "users_operation (Call_UpdateClientTags ctx token client) = ''Update client tags''"
| "users_operation (Call_UpdateClientIdentity ctx token id' identity) = ''Update client identity''"
| "users_operation (Call_UpdateClientSecret ctx token oldSecret newSecret) = ''Update client secret''"
| "users_operation (Call_GenerateResetToken ctx email host) = ''Generate reset token''"
| "users_operation (Call_ResetSecret ctx token secret) = ''Reset secret''"
| "users_operation (Call_SendPasswordReset ctx host email user token) = ''Send password reset''"
| "users_operation (Call_UpdateClientRole ctx token client) = ''Update client role''"
| "users_operation (Call_EnableClient ctx token id') = ''Enable client''"
| "users_operation (Call_DisableClient ctx token id') = ''Disable client''"
| "users_operation (Call_ListMembers ctx token objectKind objectID cp) = ''List members''"
| "users_operation (Call_Identify ctx token) = ''Identify''"


section \<open>The bootstrap middleware (package \<^verbatim>\<open>api\<close> over \<^verbatim>\<open>bootstrap.Service\<close>, in \<^verbatim>\<open>readers/mongodb/setup_test.go\<close>)\<close>

text \<open>
  \<^verbatim>\<open>bootstrap.Config\<close>, \<^verbatim>\<open>bootstrap.Channel\<close>, \<^verbatim>\<open>bootstrap.Filter\<close>,
  \<^verbatim>\<open>bootstrap.ConfigsPage\<close> and \<^verbatim>\<open>bootstrap.State\<close> are declared outside the sources;
  the records carry the fields the middleware reads, a state is a number.
\<close>

record Config =
  ThingID :: string
  ExternalID :: string

record Channel =
  Channel_ID :: string
  Channel_Name :: string
  Channel_Metadata :: Metadata

datatype Filter = Filter "(string \<times> string) list"

datatype ConfigsPage = ConfigsPage "Config list"

text \<open>One constructor per operation of \<^verbatim>\<open>bootstrap.Service\<close>, and the interface.\<close>

datatype bootstrap_call =
    Call_Add Context string Config
  | Call_View Context string string
  | Call_Update Context string Config
  | Call_UpdateCert Context string string string string string
  | Call_UpdateConnections Context string string "string list"
  | Call_List Context string Filter nat nat
  | Call_Remove Context string string
  | Call_Bootstrap Context string string bool
  | Call_ChangeState Context string string nat
  | Call_UpdateChannelHandler Context Channel
  | Call_RemoveConfigHandler Context string
  | Call_RemoveChannelHandler Context string
  | Call_DisconnectThingHandler Context string string

record bootstrap_Service =
  svc_Add :: "Context \<Rightarrow> string \<Rightarrow> Config \<Rightarrow> Config reply"
  svc_View :: "Context \<Rightarrow> string \<Rightarrow> string \<Rightarrow> Config reply"
  svc_Update :: "Context \<Rightarrow> string \<Rightarrow> Config \<Rightarrow> unit reply"
  svc_UpdateCert :: "Context \<Rightarrow> string \<Rightarrow> string \<Rightarrow> string \<Rightarrow> string \<Rightarrow> string \<Rightarrow> Config reply"
  svc_UpdateConnections :: "Context \<Rightarrow> string \<Rightarrow> string \<Rightarrow> (string list) \<Rightarrow> unit reply"
  svc_List :: "Context \<Rightarrow> string \<Rightarrow> Filter \<Rightarrow> nat \<Rightarrow> nat \<Rightarrow> ConfigsPage reply"
  svc_Remove :: "Context \<Rightarrow> string \<Rightarrow> string \<Rightarrow> unit reply"
  svc_Bootstrap :: "Context \<Rightarrow> string \<Rightarrow> string \<Rightarrow> bool \<Rightarrow> Config reply"
  svc_ChangeState :: "Context \<Rightarrow> string \<Rightarrow> string \<Rightarrow> nat \<Rightarrow> unit reply"
  svc_UpdateChannelHandler :: "Context \<Rightarrow> Channel \<Rightarrow> unit reply"
  svc_RemoveConfigHandler :: "Context \<Rightarrow> string \<Rightarrow> unit reply"
  svc_RemoveChannelHandler :: "Context \<Rightarrow> string \<Rightarrow> unit reply"
  svc_DisconnectThingHandler :: "Context \<Rightarrow> string \<Rightarrow> string \<Rightarrow> unit reply"

text \<open>The thing id is read from the returned configuration.\<close>

definition Add ::
  "bootstrap_Service loggingMiddleware \<Rightarrow> Context \<Rightarrow> string \<Rightarrow> Config \<Rightarrow> bootstrap_call world
     \<Rightarrow> (Config \<times> error option) outcome \<times> bootstrap_call world" where
  "Add lm ctx token cfg w =
     (let begin = now w;
          (saved, err, took) = svc_Add (svc lm) ctx token cfg;
          w1 = invoke (Call_Add ctx token cfg) took w;
          args = [attr (slog_String_Duration ''duration'' (Since begin w1)),
                  attr (slog_String ''thing_id'' (ThingID saved))]
      in case err of
           Some e \<Rightarrow>
             (Returned (saved, err),
              slog_Warn (logger lm) ''Add failed to complete successfully''
                (args @ [attr (slog_Any ''error'' (Err e))]) w1)
         | None \<Rightarrow>
             (Returned (saved, err),
              slog_Info (logger lm) ''Add completed successfully'' args w1))"

text \<open>The thing id is the argument.\<close>

definition View ::
  "bootstrap_Service loggingMiddleware \<Rightarrow> Context \<Rightarrow> string \<Rightarrow> string \<Rightarrow> bootstrap_call world
     \<Rightarrow> (Config \<times> error option) outcome \<times> bootstrap_call world" where
  "View lm ctx token id' w =
     (let begin = now w;
          (saved, err, took) = svc_View (svc lm) ctx token id';
          w1 = invoke (Call_View ctx token id') took w;
          args = [attr (slog_String_Duration ''duration'' (Since begin w1)),
                  attr (slog_String ''thing_id'' id')]
      in case err of
           Some e \<Rightarrow>
             (Returned (saved, err),
              slog_Warn (logger lm) ''View failed to complete successfully''
                (args @ [attr (slog_Any ''error'' (Err e))]) w1)
         | None \<Rightarrow>
             (Returned (saved, err),
              slog_Info (logger lm) ''View completed successfully'' args w1))"

text \<open>The thing id is the argument's.\<close>

definition Update ::
  "bootstrap_Service loggingMiddleware \<Rightarrow> Context \<Rightarrow> string \<Rightarrow> Config \<Rightarrow> bootstrap_call world
     \<Rightarrow> (unit \<times> error option) outcome \<times> bootstrap_call world" where
  "Update lm ctx token cfg w =
     (let begin = now w;
          (u, err, took) = svc_Update (svc lm) ctx token cfg;
          w1 = invoke (Call_Update ctx token cfg) took w;
          args = [attr (slog_String_Duration ''duration'' (Since begin w1)),
                  attr (slog_String ''thing_id'' (ThingID cfg))]
      in case err of
           Some e \<Rightarrow>
             (Returned ((), err),
              slog_Warn (logger lm) ''Update failed to complete successfully''
                (args @ [attr (slog_Any ''error'' (Err e))]) w1)
         | None \<Rightarrow>
             (Returned ((), err),
              slog_Info (logger lm) ''Update completed successfully'' args w1))"

text \<open>The thing id is read from the returned configuration, not from the argument.\<close>

definition UpdateCert ::
  "bootstrap_Service loggingMiddleware \<Rightarrow> Context \<Rightarrow> string \<Rightarrow> string \<Rightarrow> string \<Rightarrow> string \<Rightarrow> string \<Rightarrow> bootstrap_call world
     \<Rightarrow> (Config \<times> error option) outcome \<times> bootstrap_call world" where
  "UpdateCert lm ctx token thingID clientCert clientKey caCert w =
     (let begin = now w;
          (cfg, err, took) = svc_UpdateCert (svc lm) ctx token thingID clientCert clientKey caCert;
          w1 = invoke (Call_UpdateCert ctx token thingID clientCert clientKey caCert) took w;
          args = [attr (slog_String_Duration ''duration'' (Since begin w1)),
                  attr (slog_String ''thing_id'' (ThingID cfg))]
      in case err of
           Some e \<Rightarrow>
             (Returned (cfg, err),
              slog_Warn (logger lm) ''Update cert failed to complete successfully''
                (args @ [attr (slog_Any ''error'' (Err e))]) w1)
         | None \<Rightarrow>
             (Returned (cfg, err),
              slog_Info (logger lm) ''Update cert completed successfully'' args w1))"

text \<open>The id is the argument.\<close>

definition UpdateConnections ::
  "bootstrap_Service loggingMiddleware \<Rightarrow> Context \<Rightarrow> string \<Rightarrow> string \<Rightarrow> (string list) \<Rightarrow> bootstrap_call world
     \<Rightarrow> (unit \<times> error option) outcome \<times> bootstrap_call world" where
  "UpdateConnections lm ctx token id' connections w =
     (let begin = now w;
          (u, err, took) = svc_UpdateConnections (svc lm) ctx token id' connections;
          w1 = invoke (Call_UpdateConnections ctx token id' connections) took w;
          args = [attr (slog_String_Duration ''duration'' (Since begin w1)),
                  attr (slog_String ''id'' id')]
      in case err of
           Some e \<Rightarrow>
             (Returned ((), err),
              slog_Warn (logger lm) ''Update connections failed to complete successfully''
                (args @ [attr (slog_Any ''error'' (Err e))]) w1)
         | None \<Rightarrow>
             (Returned ((), err),
              slog_Info (logger lm) ''Update connections completed successfully'' args w1))"

text \<open>Offset and limit are the arguments.\<close>

definition List ::
  "bootstrap_Service loggingMiddleware \<Rightarrow> Context \<Rightarrow> string \<Rightarrow> Filter \<Rightarrow> nat \<Rightarrow> nat \<Rightarrow> bootstrap_call world
     \<Rightarrow> (ConfigsPage \<times> error option) outcome \<times> bootstrap_call world" where
  "List lm ctx token filter' offset limit w =
     (let begin = now w;
          (res, err, took) = svc_List (svc lm) ctx token filter' offset limit;
          w1 = invoke (Call_List ctx token filter' offset limit) took w;
          args = [attr (slog_String_Duration ''duration'' (Since begin w1)),
                  attr (slog_Group ''filter'' [slog_Uint64 ''offset'' offset, slog_Uint64 ''limit'' limit])]
      in case err of
           Some e \<Rightarrow>
             (Returned (res, err),
              slog_Warn (logger lm) ''List failed to complete successfully''
                (args @ [attr (slog_Any ''error'' (Err e))]) w1)
         | None \<Rightarrow>
             (Returned (res, err),
              slog_Info (logger lm) ''List completed successfully'' args w1))"

text \<open>The id is the argument.\<close>

definition Remove ::
  "bootstrap_Service loggingMiddleware \<Rightarrow> Context \<Rightarrow> string \<Rightarrow> string \<Rightarrow> bootstrap_call world
     \<Rightarrow> (unit \<times> error option) outcome \<times> bootstrap_call world" where
  "Remove lm ctx token id' w =
     (let begin = now w;
          (u, err, took) = svc_Remove (svc lm) ctx token id';
          w1 = invoke (Call_Remove ctx token id') took w;
          args = [attr (slog_String_Duration ''duration'' (Since begin w1)),
                  attr (slog_String ''id'' id')]
      in case err of
           Some e \<Rightarrow>
             (Returned ((), err),
              slog_Warn (logger lm) ''Remove failed to complete successfully''
                (args @ [attr (slog_Any ''error'' (Err e))]) w1)
         | None \<Rightarrow>
             (Returned ((), err),
              slog_Info (logger lm) ''Remove completed successfully'' args w1))"

text \<open>The external id is the argument.\<close>

definition Bootstrap ::
  "bootstrap_Service loggingMiddleware \<Rightarrow> Context \<Rightarrow> string \<Rightarrow> string \<Rightarrow> bool \<Rightarrow> bootstrap_call world
     \<Rightarrow> (Config \<times> error option) outcome \<times> bootstrap_call world" where
  "Bootstrap lm ctx externalKey externalID secure w =
     (let begin = now w;
          (cfg, err, took) = svc_Bootstrap (svc lm) ctx externalKey externalID secure;
          w1 = invoke (Call_Bootstrap ctx externalKey externalID secure) took w;
          args = [attr (slog_String_Duration ''duration'' (Since begin w1)),
                  attr (slog_Group ''config'' [slog_String ''external_id'' externalID])]
      in case err of
           Some e \<Rightarrow>
             (Returned (cfg, err),
              slog_Warn (logger lm) ''Bootstrap failed to complete successfully''
                (args @ [attr (slog_Any ''error'' (Err e))]) w1)
         | None \<Rightarrow>
             (Returned (cfg, err),
              slog_Info (logger lm) ''Bootstrap completed successfully'' args w1))"

text \<open>Id and state are the arguments.\<close>

definition ChangeState ::
  "bootstrap_Service loggingMiddleware \<Rightarrow> Context \<Rightarrow> string \<Rightarrow> string \<Rightarrow> nat \<Rightarrow> bootstrap_call world
     \<Rightarrow> (unit \<times> error option) outcome \<times> bootstrap_call world" where
  "ChangeState lm ctx token id' state w =
     (let begin = now w;
          (u, err, took) = svc_ChangeState (svc lm) ctx token id' state;
          w1 = invoke (Call_ChangeState ctx token id' state) took w;
          args = [attr (slog_String_Duration ''duration'' (Since begin w1)),
                  attr (slog_String ''id'' id'),
                  attr (slog_Any ''state'' (State state))]
      in case err of
           Some e \<Rightarrow>
             (Returned ((), err),
              slog_Warn (logger lm) ''Change state failed to complete successfully''
                (args @ [attr (slog_Any ''error'' (Err e))]) w1)
         | None \<Rightarrow>
             (Returned ((), err),
              slog_Info (logger lm) ''Change state completed successfully'' args w1))"

text \<open>The channel is the argument.\<close>

definition UpdateChannelHandler ::
  "bootstrap_Service loggingMiddleware \<Rightarrow> Context \<Rightarrow> Channel \<Rightarrow> bootstrap_call world
     \<Rightarrow> (unit \<times> error option) outcome \<times> bootstrap_call world" where
  "UpdateChannelHandler lm ctx channel w =
     (let begin = now w;
          (u, err, took) = svc_UpdateChannelHandler (svc lm) ctx channel;
          w1 = invoke (Call_UpdateChannelHandler ctx channel) took w;
          args = [attr (slog_String_Duration ''duration'' (Since begin w1)),
                  attr (slog_Group ''channel'' [slog_String ''channel_id'' (Channel_ID channel), slog_String ''channel_name'' (Channel_Name channel), slog_Any ''channel_metadata'' (Meta (Channel_Metadata channel))])]
      in case err of
           Some e \<Rightarrow>
             (Returned ((), err),
              slog_Warn (logger lm) ''Update channel handler failed to complete successfully''
                (args @ [attr (slog_Any ''error'' (Err e))]) w1)
         | None \<Rightarrow>
             (Returned ((), err),
              slog_Info (logger lm) ''Update channel handler completed successfully'' args w1))"

text \<open>The id is the argument.\<close>

definition RemoveConfigHandler ::
  "bootstrap_Service loggingMiddleware \<Rightarrow> Context \<Rightarrow> string \<Rightarrow> bootstrap_call world
     \<Rightarrow> (unit \<times> error option) outcome \<times> bootstrap_call world" where
  "RemoveConfigHandler lm ctx id' w =
     (let begin = now w;
          (u, err, took) = svc_RemoveConfigHandler (svc lm) ctx id';
          w1 = invoke (Call_RemoveConfigHandler ctx id') took w;
          args = [attr (slog_String_Duration ''duration'' (Since begin w1)),
                  attr (slog_String ''config_id'' id')]
      in case err of
           Some e \<Rightarrow>
             (Returned ((), err),
              slog_Warn (logger lm) ''Remove config handler failed to complete successfully''
                (args @ [attr (slog_Any ''error'' (Err e))]) w1)
         | None \<Rightarrow>
             (Returned ((), err),
              slog_Info (logger lm) ''Remove config handler completed successfully'' args w1))"

text \<open>The id is the argument.\<close>

definition RemoveChannelHandler ::
  "bootstrap_Service loggingMiddleware \<Rightarrow> Context \<Rightarrow> string \<Rightarrow> bootstrap_call world
     \<Rightarrow> (unit \<times> error option) outcome \<times> bootstrap_call world" where
  "RemoveChannelHandler lm ctx id' w =
     (let begin = now w;
          (u, err, took) = svc_RemoveChannelHandler (svc lm) ctx id';
          w1 = invoke (Call_RemoveChannelHandler ctx id') took w;
          args = [attr (slog_String_Duration ''duration'' (Since begin w1)),
                  attr (slog_String ''id'' id')]
      in case err of
           Some e \<Rightarrow>
             (Returned ((), err),
              slog_Warn (logger lm) ''Remove channel handler failed to complete successfully''
                (args @ [attr (slog_Any ''error'' (Err e))]) w1)
         | None \<Rightarrow>
             (Returned ((), err),
              slog_Info (logger lm) ''Remove channel handler completed successfully'' args w1))"

text \<open>Channel id and thing id are the arguments.\<close>

definition DisconnectThingHandler ::
  "bootstrap_Service loggingMiddleware \<Rightarrow> Context \<Rightarrow> string \<Rightarrow> string \<Rightarrow> bootstrap_call world
     \<Rightarrow> (unit \<times> error option) outcome \<times> bootstrap_call world" where
  "DisconnectThingHandler lm ctx channelID thingID w =
     (let begin = now w;
          (u, err, took) = svc_DisconnectThingHandler (svc lm) ctx channelID thingID;
          w1 = invoke (Call_DisconnectThingHandler ctx channelID thingID) took w;
          args = [attr (slog_String_Duration ''duration'' (Since begin w1)),
                  attr (slog_String ''channel_id'' channelID),
                  attr (slog_String ''thing_id'' thingID)]
      in case err of
           Some e \<Rightarrow>
             (Returned ((), err),
              slog_Warn (logger lm) ''Disconnect thing handler failed to complete successfully''
                (args @ [attr (slog_Any ''error'' (Err e))]) w1)
         | None \<Rightarrow>
             (Returned ((), err),
              slog_Info (logger lm) ''Disconnect thing handler completed successfully'' args w1))"

text \<open>The operations of the bootstrap middleware under one name: the result types are joined in one
  type, \<open>bootstrap_answer\<close> is what the wrapped service answers to a call, \<open>bootstrap_serve\<close> is the
  middleware's method for it, \<open>bootstrap_operation\<close> is the operation's name as its two messages
  spell it.\<close>

datatype bootstrap_result = Config_result Config | ConfigsPage_result ConfigsPage | no_config

fun bootstrap_answer :: "bootstrap_Service \<Rightarrow> bootstrap_call \<Rightarrow> bootstrap_result reply" where
  "bootstrap_answer s (Call_Add ctx token cfg) = tag Config_result (svc_Add s ctx token cfg)"
| "bootstrap_answer s (Call_View ctx token id') = tag Config_result (svc_View s ctx token id')"
| "bootstrap_answer s (Call_Update ctx token cfg) = tag (\<lambda>_. no_config) (svc_Update s ctx token cfg)"
| "bootstrap_answer s (Call_UpdateCert ctx token thingID clientCert clientKey caCert) = tag Config_result (svc_UpdateCert s ctx token thingID clientCert clientKey caCert)"
| "bootstrap_answer s (Call_UpdateConnections ctx token id' connections) = tag (\<lambda>_. no_config) (svc_UpdateConnections s ctx token id' connections)"
| "bootstrap_answer s (Call_List ctx token filter' offset limit) = tag ConfigsPage_result (svc_List s ctx token filter' offset limit)"
| "bootstrap_answer s (Call_Remove ctx token id') = tag (\<lambda>_. no_config) (svc_Remove s ctx token id')"
| "bootstrap_answer s (Call_Bootstrap ctx externalKey externalID secure) = tag Config_result (svc_Bootstrap s ctx externalKey externalID secure)"
| "bootstrap_answer s (Call_ChangeState ctx token id' state) = tag (\<lambda>_. no_config) (svc_ChangeState s ctx token id' state)"
| "bootstrap_answer s (Call_UpdateChannelHandler ctx channel) = tag (\<lambda>_. no_config) (svc_UpdateChannelHandler s ctx channel)"
| "bootstrap_answer s (Call_RemoveConfigHandler ctx id') = tag (\<lambda>_. no_config) (svc_RemoveConfigHandler s ctx id')"
| "bootstrap_answer s (Call_RemoveChannelHandler ctx id') = tag (\<lambda>_. no_config) (svc_RemoveChannelHandler s ctx id')"
| "bootstrap_answer s (Call_DisconnectThingHandler ctx channelID thingID) = tag (\<lambda>_. no_config) (svc_DisconnectThingHandler s ctx channelID thingID)"

fun bootstrap_serve ::
  "bootstrap_Service loggingMiddleware \<Rightarrow> bootstrap_call \<Rightarrow> bootstrap_call world
     \<Rightarrow> (bootstrap_result \<times> error option) outcome \<times> bootstrap_call world" where
  "bootstrap_serve lm (Call_Add ctx token cfg) w = tagged Config_result (Add lm ctx token cfg w)"
| "bootstrap_serve lm (Call_View ctx token id') w = tagged Config_result (View lm ctx token id' w)"
| "bootstrap_serve lm (Call_Update ctx token cfg) w = tagged (\<lambda>_. no_config) (Update lm ctx token cfg w)"
| "bootstrap_serve lm (Call_UpdateCert ctx token thingID clientCert clientKey caCert) w = tagged Config_result (UpdateCert lm ctx token thingID clientCert clientKey caCert w)"
| "bootstrap_serve lm (Call_UpdateConnections ctx token id' connections) w = tagged (\<lambda>_. no_config) (UpdateConnections lm ctx token id' connections w)"
| "bootstrap_serve lm (Call_List ctx token filter' offset limit) w = tagged ConfigsPage_result (List lm ctx token filter' offset limit w)"
| "bootstrap_serve lm (Call_Remove ctx token id') w = tagged (\<lambda>_. no_config) (Remove lm ctx token id' w)"
| "bootstrap_serve lm (Call_Bootstrap ctx externalKey externalID secure) w = tagged Config_result (Bootstrap lm ctx externalKey externalID secure w)"
| "bootstrap_serve lm (Call_ChangeState ctx token id' state) w = tagged (\<lambda>_. no_config) (ChangeState lm ctx token id' state w)"
| "bootstrap_serve lm (Call_UpdateChannelHandler ctx channel) w = tagged (\<lambda>_. no_config) (UpdateChannelHandler lm ctx channel w)"
| "bootstrap_serve lm (Call_RemoveConfigHandler ctx id') w = tagged (\<lambda>_. no_config) (RemoveConfigHandler lm ctx id' w)"
| "bootstrap_serve lm (Call_RemoveChannelHandler ctx id') w = tagged (\<lambda>_. no_config) (RemoveChannelHandler lm ctx id' w)"
| "bootstrap_serve lm (Call_DisconnectThingHandler ctx channelID thingID) w = tagged (\<lambda>_. no_config) (DisconnectThingHandler lm ctx channelID thingID w)"

fun bootstrap_operation :: "bootstrap_call \<Rightarrow> string" where
  "bootstrap_operation (Call_Add ctx token cfg) = ''Add''"
| "bootstrap_operation (Call_View ctx token id') = ''View''"
| "bootstrap_operation (Call_Update ctx token cfg) = ''Update''"
| "bootstrap_operation (Call_UpdateCert ctx token thingID clientCert clientKey caCert) = ''Update cert''"
| "bootstrap_operation (Call_UpdateConnections ctx token id' connections) = ''Update connections''"
| "bootstrap_operation (Call_List ctx token filter' offset limit) = ''List''"
| "bootstrap_operation (Call_Remove ctx token id') = ''Remove''"
| "bootstrap_operation (Call_Bootstrap ctx externalKey externalID secure) = ''Bootstrap''"
| "bootstrap_operation (Call_ChangeState ctx token id' state) = ''Change state''"
| "bootstrap_operation (Call_UpdateChannelHandler ctx channel) = ''Update channel handler''"
| "bootstrap_operation (Call_RemoveConfigHandler ctx id') = ''Remove config handler''"
| "bootstrap_operation (Call_RemoveChannelHandler ctx id') = ''Remove channel handler''"
| "bootstrap_operation (Call_DisconnectThingHandler ctx channelID thingID) = ''Disconnect thing handler''"


section \<open>The certs middleware (\<^verbatim>\<open>certs/api/logging.go\<close>)\<close>

text \<open>\<^verbatim>\<open>certs.Cert\<close>, \<^verbatim>\<open>certs.Page\<close> and \<^verbatim>\<open>certs.Revoke\<close> are declared outside the sources and
  the middleware only passes them on: a certificate is known by its serial, a revocation
  by its time.\<close>

datatype Cert = Cert string

datatype certs_Page = certs_Page "Cert list"

datatype Revoke = Revoke nat

text \<open>One constructor per operation of \<^verbatim>\<open>certs.Service\<close>, and the interface. On failure
  the methods log the error text and the duration only; on success the arguments and the
  duration.\<close>

datatype certs_call =
    Call_IssueCert Context string string string
  | Call_ListCerts Context string string nat nat
  | Call_ListSerials Context string string nat nat
  | Call_ViewCert Context string string
  | Call_RevokeCert Context string string

record certs_Service =
  svc_IssueCert :: "Context \<Rightarrow> string \<Rightarrow> string \<Rightarrow> string \<Rightarrow> Cert reply"
  svc_ListCerts :: "Context \<Rightarrow> string \<Rightarrow> string \<Rightarrow> nat \<Rightarrow> nat \<Rightarrow> certs_Page reply"
  svc_ListSerials :: "Context \<Rightarrow> string \<Rightarrow> string \<Rightarrow> nat \<Rightarrow> nat \<Rightarrow> certs_Page reply"
  svc_ViewCert :: "Context \<Rightarrow> string \<Rightarrow> string \<Rightarrow> Cert reply"
  svc_RevokeCert :: "Context \<Rightarrow> string \<Rightarrow> string \<Rightarrow> Revoke reply"

definition IssueCert ::
  "certs_Service loggingMiddleware \<Rightarrow> Context \<Rightarrow> string \<Rightarrow> string \<Rightarrow> string \<Rightarrow> certs_call world
     \<Rightarrow> (Cert \<times> error option) outcome \<times> certs_call world" where
  "IssueCert lm ctx token thingID ttl w =
     (let begin = now w;
          (c, err, took) = svc_IssueCert (svc lm) ctx token thingID ttl;
          w1 = invoke (Call_IssueCert ctx token thingID ttl) took w;
          message = ''Method issue_cert completed''
      in case err of
           Some e \<Rightarrow>
             (Returned (c, err),
              slog_Warn (logger lm) (message @ '' with error.'')
                [attr (slog_String ''error'' (err_Error e)),
                 attr (slog_String_Duration ''duration'' (Since begin w1))] w1)
         | None \<Rightarrow>
             (Returned (c, err),
              slog_Info (logger lm) (message @ '' without errors.'')
                [attr (slog_String ''thing_id'' thingID),
                 attr (slog_String ''token'' token),
                 attr (slog_String ''ttl'' ttl),
                 attr (slog_String_Duration ''duration'' (Since begin w1))] w1))"

definition ListCerts ::
  "certs_Service loggingMiddleware \<Rightarrow> Context \<Rightarrow> string \<Rightarrow> string \<Rightarrow> nat \<Rightarrow> nat \<Rightarrow> certs_call world
     \<Rightarrow> (certs_Page \<times> error option) outcome \<times> certs_call world" where
  "ListCerts lm ctx token thingID offset limit w =
     (let begin = now w;
          (cp, err, took) = svc_ListCerts (svc lm) ctx token thingID offset limit;
          w1 = invoke (Call_ListCerts ctx token thingID offset limit) took w;
          message = ''Method list_certs completed''
      in case err of
           Some e \<Rightarrow>
             (Returned (cp, err),
              slog_Warn (logger lm) (message @ '' with error.'')
                [attr (slog_String ''error'' (err_Error e)),
                 attr (slog_String_Duration ''duration'' (Since begin w1))] w1)
         | None \<Rightarrow>
             (Returned (cp, err),
              slog_Info (logger lm) (message @ '' without errors.'')
                [attr (slog_String ''thing_id'' thingID),
                 attr (slog_String ''token'' token),
                 attr (slog_Uint64 ''offset'' offset),
                 attr (slog_Uint64 ''limit'' limit),
                 attr (slog_String_Duration ''duration'' (Since begin w1))] w1))"

definition ListSerials ::
  "certs_Service loggingMiddleware \<Rightarrow> Context \<Rightarrow> string \<Rightarrow> string \<Rightarrow> nat \<Rightarrow> nat \<Rightarrow> certs_call world
     \<Rightarrow> (certs_Page \<times> error option) outcome \<times> certs_call world" where
  "ListSerials lm ctx token thingID offset limit w =
     (let begin = now w;
          (cp, err, took) = svc_ListSerials (svc lm) ctx token thingID offset limit;
          w1 = invoke (Call_ListSerials ctx token thingID offset limit) took w;
          message = ''Method list_serials completed''
      in case err of
           Some e \<Rightarrow>
             (Returned (cp, err),
              slog_Warn (logger lm) (message @ '' with error.'')
                [attr (slog_String ''error'' (err_Error e)),
                 attr (slog_String_Duration ''duration'' (Since begin w1))] w1)
         | None \<Rightarrow>
             (Returned (cp, err),
              slog_Info (logger lm) (message @ '' without errors.'')
                [attr (slog_String ''token'' token),
                 attr (slog_String ''thing_id'' thingID),
                 attr (slog_Uint64 ''offset'' offset),
                 attr (slog_Uint64 ''limit'' limit),
                 attr (slog_String_Duration ''duration'' (Since begin w1))] w1))"

definition ViewCert ::
  "certs_Service loggingMiddleware \<Rightarrow> Context \<Rightarrow> string \<Rightarrow> string \<Rightarrow> certs_call world
     \<Rightarrow> (Cert \<times> error option) outcome \<times> certs_call world" where
  "ViewCert lm ctx token serialID w =
     (let begin = now w;
          (c, err, took) = svc_ViewCert (svc lm) ctx token serialID;
          w1 = invoke (Call_ViewCert ctx token serialID) took w;
          message = ''Method view_cert completed''
      in case err of
           Some e \<Rightarrow>
             (Returned (c, err),
              slog_Warn (logger lm) (message @ '' with error.'')
                [attr (slog_String ''error'' (err_Error e)),
                 attr (slog_String_Duration ''duration'' (Since begin w1))] w1)
         | None \<Rightarrow>
             (Returned (c, err),
              slog_Info (logger lm) (message @ '' without errors.'')
                [attr (slog_String ''token'' token),
                 attr (slog_String ''serial_id'' serialID),
                 attr (slog_String_Duration ''duration'' (Since begin w1))] w1))"

definition RevokeCert ::
  "certs_Service loggingMiddleware \<Rightarrow> Context \<Rightarrow> string \<Rightarrow> string \<Rightarrow> certs_call world
     \<Rightarrow> (Revoke \<times> error option) outcome \<times> certs_call world" where
  "RevokeCert lm ctx token thingID w =
     (let begin = now w;
          (c, err, took) = svc_RevokeCert (svc lm) ctx token thingID;
          w1 = invoke (Call_RevokeCert ctx token thingID) took w;
          message = ''Method revoke_cert completed''
      in case err of
           Some e \<Rightarrow>
             (Returned (c, err),
              slog_Warn (logger lm) (message @ '' with error.'')
                [attr (slog_String ''error'' (err_Error e)),
                 attr (slog_String_Duration ''duration'' (Since begin w1))] w1)
         | None \<Rightarrow>
             (Returned (c, err),
              slog_Info (logger lm) (message @ '' without errors.'')
                [attr (slog_String ''token'' token),
                 attr (slog_String ''thing_id'' thingID),
                 attr (slog_String_Duration ''duration'' (Since begin w1))] w1))"

text \<open>The operations of the certs middleware under one name: the result types are joined in one
  type, \<open>certs_answer\<close> is what the wrapped service answers to a call, \<open>certs_serve\<close> is the
  middleware's method for it, \<open>certs_operation\<close> is the operation's name as its two messages
  spell it.\<close>

datatype certs_result = Cert_result Cert | Page_result certs_Page | Revoke_result Revoke

fun certs_answer :: "certs_Service \<Rightarrow> certs_call \<Rightarrow> certs_result reply" where
  "certs_answer s (Call_IssueCert ctx token thingID ttl) = tag Cert_result (svc_IssueCert s ctx token thingID ttl)"
| "certs_answer s (Call_ListCerts ctx token thingID offset limit) = tag Page_result (svc_ListCerts s ctx token thingID offset limit)"
| "certs_answer s (Call_ListSerials ctx token thingID offset limit) = tag Page_result (svc_ListSerials s ctx token thingID offset limit)"
| "certs_answer s (Call_ViewCert ctx token serialID) = tag Cert_result (svc_ViewCert s ctx token serialID)"
| "certs_answer s (Call_RevokeCert ctx token thingID) = tag Revoke_result (svc_RevokeCert s ctx token thingID)"

fun certs_serve ::
  "certs_Service loggingMiddleware \<Rightarrow> certs_call \<Rightarrow> certs_call world
     \<Rightarrow> (certs_result \<times> error option) outcome \<times> certs_call world" where
  "certs_serve lm (Call_IssueCert ctx token thingID ttl) w = tagged Cert_result (IssueCert lm ctx token thingID ttl w)"
| "certs_serve lm (Call_ListCerts ctx token thingID offset limit) w = tagged Page_result (ListCerts lm ctx token thingID offset limit w)"
| "certs_serve lm (Call_ListSerials ctx token thingID offset limit) w = tagged Page_result (ListSerials lm ctx token thingID offset limit w)"
| "certs_serve lm (Call_ViewCert ctx token serialID) w = tagged Cert_result (ViewCert lm ctx token serialID w)"
| "certs_serve lm (Call_RevokeCert ctx token thingID) w = tagged Revoke_result (RevokeCert lm ctx token thingID w)"

fun certs_operation :: "certs_call \<Rightarrow> string" where
  "certs_operation (Call_IssueCert ctx token thingID ttl) = ''issue_cert''"
| "certs_operation (Call_ListCerts ctx token thingID offset limit) = ''list_certs''"
| "certs_operation (Call_ListSerials ctx token thingID offset limit) = ''list_serials''"
| "certs_operation (Call_ViewCert ctx token serialID) = ''view_cert''"
| "certs_operation (Call_RevokeCert ctx token thingID) = ''revoke_cert''"


section \<open>The session-handler middleware (\<^verbatim>\<open>pkg/messaging/handler/logging.go\<close>)\<close>

text \<open>
  \<^verbatim>\<open>session.Handler\<close> belongs to another module; its operations have the signatures of
  the middleware's own methods, which implement it. A pointer argument is an \<open>option\<close>,
  a byte slice a string.
\<close>

datatype handler_call =
    Call_AuthConnect Context
  | Call_AuthPublish Context "string option" "string option"
  | Call_AuthSubscribe Context "string list option"
  | Call_Connect Context
  | Call_Disconnect Context
  | Call_Publish Context "string option" "string option"
  | Call_Subscribe Context "string list option"
  | Call_Unsubscribe Context "string list option"

record session_Handler =
  svc_AuthConnect :: "Context \<Rightarrow> unit reply"
  svc_AuthPublish :: "Context \<Rightarrow> string option \<Rightarrow> string option \<Rightarrow> unit reply"
  svc_AuthSubscribe :: "Context \<Rightarrow> string list option \<Rightarrow> unit reply"
  svc_Connect :: "Context \<Rightarrow> unit reply"
  svc_Disconnect :: "Context \<Rightarrow> unit reply"
  svc_Publish :: "Context \<Rightarrow> string option \<Rightarrow> string option \<Rightarrow> unit reply"
  svc_Subscribe :: "Context \<Rightarrow> string list option \<Rightarrow> unit reply"
  svc_Unsubscribe :: "Context \<Rightarrow> string list option \<Rightarrow> unit reply"

text \<open>
  \<^verbatim>\<open>logAction\<close> ends in \<^verbatim>\<open>return nil\<close>: the named result \<^verbatim>\<open>err\<close> is \<^verbatim>\<open>nil\<close> when the
  deferred function reads it, and \<^verbatim>\<open>lm.svc\<close> is not called anywhere in the file.
\<close>

definition logAction ::
  "session_Handler loggingMiddleware \<Rightarrow> Context \<Rightarrow> string \<Rightarrow> string list option \<Rightarrow> handler_call world
     \<Rightarrow> (unit \<times> error option) outcome \<times> handler_call world" where
  "logAction lm ctx action topics w =
     (let begin = now w;
          err = (None :: error option);
          args = [attr (slog_String_Duration ''duration'' (Since begin w))];
          args = (case topics of
                    Some ts \<Rightarrow> args @ [attr (slog_Any ''topics'' (Strs ts))]
                  | None \<Rightarrow> args)
      in case err of
           Some e \<Rightarrow>
             (Returned ((), err),
              slog_Warn (logger lm) (action @ ''() failed to complete successfully'')
                (args @ [attr (slog_Any ''error'' (Err e))]) w)
         | None \<Rightarrow>
             (Returned ((), err),
              slog_Info (logger lm) (action @ ''() completed successfully'') args w))"

definition AuthConnect ::
  "session_Handler loggingMiddleware \<Rightarrow> Context \<Rightarrow> handler_call world
     \<Rightarrow> (unit \<times> error option) outcome \<times> handler_call world" where
  "AuthConnect lm ctx w = logAction lm ctx ''AuthConnect'' None w"

text \<open>\<^verbatim>\<open>&[]string{*topic}\<close> reads through the pointer \<^verbatim>\<open>topic\<close> before \<^verbatim>\<open>logAction\<close> runs.\<close>

definition AuthPublish ::
  "session_Handler loggingMiddleware \<Rightarrow> Context \<Rightarrow> string option \<Rightarrow> string option \<Rightarrow> handler_call world
     \<Rightarrow> (unit \<times> error option) outcome \<times> handler_call world" where
  "AuthPublish lm ctx topic payload w =
     (case topic of
        None \<Rightarrow> (Panicked, w)
      | Some t \<Rightarrow> logAction lm ctx ''AuthPublish'' (Some [t]) w)"

definition AuthSubscribe ::
  "session_Handler loggingMiddleware \<Rightarrow> Context \<Rightarrow> string list option \<Rightarrow> handler_call world
     \<Rightarrow> (unit \<times> error option) outcome \<times> handler_call world" where
  "AuthSubscribe lm ctx topics w = logAction lm ctx ''AuthSubscribe'' topics w"

definition Connect ::
  "session_Handler loggingMiddleware \<Rightarrow> Context \<Rightarrow> handler_call world
     \<Rightarrow> (unit \<times> error option) outcome \<times> handler_call world" where
  "Connect lm ctx w = logAction lm ctx ''Connect'' None w"

definition Disconnect ::
  "session_Handler loggingMiddleware \<Rightarrow> Context \<Rightarrow> handler_call world
     \<Rightarrow> (unit \<times> error option) outcome \<times> handler_call world" where
  "Disconnect lm ctx w = logAction lm ctx ''Disconnect'' None w"

definition Publish ::
  "session_Handler loggingMiddleware \<Rightarrow> Context \<Rightarrow> string option \<Rightarrow> string option \<Rightarrow> handler_call world
     \<Rightarrow> (unit \<times> error option) outcome \<times> handler_call world" where
  "Publish lm ctx topic payload w =
     (case topic of
        None \<Rightarrow> (Panicked, w)
      | Some t \<Rightarrow> logAction lm ctx ''Publish'' (Some [t]) w)"

definition Subscribe ::
  "session_Handler loggingMiddleware \<Rightarrow> Context \<Rightarrow> string list option \<Rightarrow> handler_call world
     \<Rightarrow> (unit \<times> error option) outcome \<times> handler_call world" where
  "Subscribe lm ctx topics w = logAction lm ctx ''Subscribe'' topics w"

definition Unsubscribe ::
  "session_Handler loggingMiddleware \<Rightarrow> Context \<Rightarrow> string list option \<Rightarrow> handler_call world
     \<Rightarrow> (unit \<times> error option) outcome \<times> handler_call world" where
  "Unsubscribe lm ctx topics w = logAction lm ctx ''Unsubscribe'' topics w"

text \<open>What the wrapped handler answers to a call, and the middleware's method for it.\<close>

fun handler_answer :: "session_Handler \<Rightarrow> handler_call \<Rightarrow> unit reply" where
  "handler_answer s (Call_AuthConnect ctx) = svc_AuthConnect s ctx"
| "handler_answer s (Call_AuthPublish ctx topic payload) = svc_AuthPublish s ctx topic payload"
| "handler_answer s (Call_AuthSubscribe ctx topics) = svc_AuthSubscribe s ctx topics"
| "handler_answer s (Call_Connect ctx) = svc_Connect s ctx"
| "handler_answer s (Call_Disconnect ctx) = svc_Disconnect s ctx"
| "handler_answer s (Call_Publish ctx topic payload) = svc_Publish s ctx topic payload"
| "handler_answer s (Call_Subscribe ctx topics) = svc_Subscribe s ctx topics"
| "handler_answer s (Call_Unsubscribe ctx topics) = svc_Unsubscribe s ctx topics"

fun handler_serve ::
  "session_Handler loggingMiddleware \<Rightarrow> handler_call \<Rightarrow> handler_call world
     \<Rightarrow> (unit \<times> error option) outcome \<times> handler_call world" where
  "handler_serve lm (Call_AuthConnect ctx) w = AuthConnect lm ctx w"
| "handler_serve lm (Call_AuthPublish ctx topic payload) w = AuthPublish lm ctx topic payload w"
| "handler_serve lm (Call_AuthSubscribe ctx topics) w = AuthSubscribe lm ctx topics w"
| "handler_serve lm (Call_Connect ctx) w = Connect lm ctx w"
| "handler_serve lm (Call_Disconnect ctx) w = Disconnect lm ctx w"
| "handler_serve lm (Call_Publish ctx topic payload) w = Publish lm ctx topic payload w"
| "handler_serve lm (Call_Subscribe ctx topics) w = Subscribe lm ctx topics w"
| "handler_serve lm (Call_Unsubscribe ctx topics) w = Unsubscribe lm ctx topics w"

section \<open>Statements about records, and values to run the code on\<close>

text \<open>What the users and bootstrap middlewares report for an operation: at Info level
  "completed successfully" and no \<^verbatim>\<open>error\<close> attribute when the service returned no error,
  at Warn level "failed to complete successfully" and the error as the last attribute
  when it returned one.\<close>

definition reports_outcome :: "string \<Rightarrow> error option \<Rightarrow> Record \<Rightarrow> bool" where
  "reports_outcome operation err r =
     (case err of
        None \<Rightarrow>
          r_level r = LevelInfo \<and> r_msg r = operation @ '' completed successfully'' \<and>
          ''error'' \<notin> fst ` set (r_attrs r)
      | Some e \<Rightarrow>
          r_level r = LevelWarn \<and> r_msg r = operation @ '' failed to complete successfully'' \<and>
          r_attrs r \<noteq> [] \<and> last (r_attrs r) = slog_Any ''error'' (Err e) \<and>
          ''error'' \<notin> fst ` set (butlast (r_attrs r)))"

text \<open>What the certs middleware reports: its own two messages, and on failure the error's
  text as the first attribute.\<close>

definition certs_reports_outcome :: "string \<Rightarrow> error option \<Rightarrow> Record \<Rightarrow> bool" where
  "certs_reports_outcome operation err r =
     (case err of
        None \<Rightarrow>
          r_level r = LevelInfo \<and>
          r_msg r = ''Method '' @ operation @ '' completed without errors.'' \<and>
          ''error'' \<notin> fst ` set (r_attrs r)
      | Some e \<Rightarrow>
          r_level r = LevelWarn \<and>
          r_msg r = ''Method '' @ operation @ '' completed with error.'' \<and>
          r_attrs r \<noteq> [] \<and> hd (r_attrs r) = slog_String ''error'' (err_Error e) \<and>
          ''error'' \<notin> fst ` set (tl (r_attrs r)))"

definition idle :: "'c world" where
  "idle = \<lparr>now = 1000, invoked = [], emitted = [], written = (\<lambda>_. [])\<rparr>"

definition stdout :: slog_Logger where
  "stdout = \<lparr>writer = 1, minLevel = LevelDebug\<rparr>"

definition errUnrecognized :: error where
  "errUnrecognized = errorString ''unrecognized log level''"

definition errNotFound :: error where
  "errNotFound = errorString ''entity not found''"

definition no_Client :: Client where
  "no_Client = \<lparr>ID = '''', Name = '''', Tags = [], Metadata = [], Role = ''''\<rparr>"

text \<open>A users service that answers every call after \<open>took\<close> nanoseconds with the client
  \<open>c\<close> or the token \<open>t\<close> and the error \<open>err\<close>.\<close>

definition users_stub :: "Client \<Rightarrow> Token option \<Rightarrow> error option \<Rightarrow> Time \<Rightarrow> users_Service" where
  "users_stub c t err took =
     \<lparr>svc_RegisterClient = (\<lambda>ctx token client. (c, err, took)),
      svc_IssueToken = (\<lambda>ctx identity secret domainID. (t, err, took)),
      svc_RefreshToken = (\<lambda>ctx refreshToken domainID. (t, err, took)),
      svc_ViewClient = (\<lambda>ctx token id'. (c, err, took)),
      svc_ViewProfile = (\<lambda>ctx token. (c, err, took)),
      svc_ListClients = (\<lambda>ctx token pm. (ClientsPage [], err, took)),
      svc_UpdateClient = (\<lambda>ctx token client. (c, err, took)),
      svc_UpdateClientTags = (\<lambda>ctx token client. (c, err, took)),
      svc_UpdateClientIdentity = (\<lambda>ctx token id' identity. (c, err, took)),
      svc_UpdateClientSecret = (\<lambda>ctx token oldSecret newSecret. (c, err, took)),
      svc_GenerateResetToken = (\<lambda>ctx email host. ((), err, took)),
      svc_ResetSecret = (\<lambda>ctx token secret. ((), err, took)),
      svc_SendPasswordReset = (\<lambda>ctx host email user token. ((), err, took)),
      svc_UpdateClientRole = (\<lambda>ctx token client. (c, err, took)),
      svc_EnableClient = (\<lambda>ctx token id'. (c, err, took)),
      svc_DisableClient = (\<lambda>ctx token id'. (c, err, took)),
      svc_ListMembers = (\<lambda>ctx token objectKind objectID cp. (MembersPage [], err, took)),
      svc_Identify = (\<lambda>ctx token. (ID c, err, took))\<rparr>"

definition bootstrap_stub :: "Config \<Rightarrow> error option \<Rightarrow> Time \<Rightarrow> bootstrap_Service" where
  "bootstrap_stub cfg err took =
     \<lparr>svc_Add = (\<lambda>ctx token c. (cfg, err, took)),
      svc_View = (\<lambda>ctx token id'. (cfg, err, took)),
      svc_Update = (\<lambda>ctx token c. ((), err, took)),
      svc_UpdateCert = (\<lambda>ctx token thingID clientCert clientKey caCert. (cfg, err, took)),
      svc_UpdateConnections = (\<lambda>ctx token id' connections. ((), err, took)),
      svc_List = (\<lambda>ctx token filter' offset limit. (ConfigsPage [], err, took)),
      svc_Remove = (\<lambda>ctx token id'. ((), err, took)),
      svc_Bootstrap = (\<lambda>ctx externalKey externalID secure. (cfg, err, took)),
      svc_ChangeState = (\<lambda>ctx token id' state. ((), err, took)),
      svc_UpdateChannelHandler = (\<lambda>ctx channel. ((), err, took)),
      svc_RemoveConfigHandler = (\<lambda>ctx id'. ((), err, took)),
      svc_RemoveChannelHandler = (\<lambda>ctx id'. ((), err, took)),
      svc_DisconnectThingHandler = (\<lambda>ctx channelID thingID. ((), err, took))\<rparr>"

definition certs_stub :: "error option \<Rightarrow> Time \<Rightarrow> certs_Service" where
  "certs_stub err took =
     \<lparr>svc_IssueCert = (\<lambda>ctx token thingID ttl. (Cert '''', err, took)),
      svc_ListCerts = (\<lambda>ctx token thingID offset limit. (certs_Page [], err, took)),
      svc_ListSerials = (\<lambda>ctx token thingID offset limit. (certs_Page [], err, took)),
      svc_ViewCert = (\<lambda>ctx token serialID. (Cert serialID, err, took)),
      svc_RevokeCert = (\<lambda>ctx token thingID. (Revoke 0, err, took))\<rparr>"

definition handler_stub :: "error option \<Rightarrow> Time \<Rightarrow> session_Handler" where
  "handler_stub err took =
     \<lparr>svc_AuthConnect = (\<lambda>ctx. ((), err, took)),
      svc_AuthPublish = (\<lambda>ctx topic payload. ((), err, took)),
      svc_AuthSubscribe = (\<lambda>ctx topics. ((), err, took)),
      svc_Connect = (\<lambda>ctx. ((), err, took)),
      svc_Disconnect = (\<lambda>ctx. ((), err, took)),
      svc_Publish = (\<lambda>ctx topic payload. ((), err, took)),
      svc_Subscribe = (\<lambda>ctx topics. ((), err, took)),
      svc_Unsubscribe = (\<lambda>ctx topics. ((), err, took))\<rparr>"

section \<open>Facts used throughout\<close>

lemma emitted_slog_Log [simp]:
  "emitted (slog_Log l lvl msg args w) =
     emitted w @ [\<lparr>r_time = now w, r_level = lvl, r_msg = msg, r_attrs = argsToAttrSlice args\<rparr>]"
  by (simp add: slog_Log_def Let_def)

lemma invoked_slog_Log [simp]: "invoked (slog_Log l lvl msg args w) = invoked w"
  by (simp add: slog_Log_def Let_def)

lemma now_slog_Log [simp]: "now (slog_Log l lvl msg args w) = now w"
  by (simp add: slog_Log_def Let_def)

lemma invoke_simps [simp]:
  "emitted (invoke c t w) = emitted w"
  "invoked (invoke c t w) = invoked w @ [c]"
  "now (invoke c t w) = now w + t"
  "written (invoke c t w) = written w"
  by (simp_all add: invoke_def)

lemmas slog_attr_defs =
  slog_String_def slog_String_Duration_def slog_Uint64_def slog_Group_def slog_Any_def

lemmas level_defs = LevelDebug_def LevelInfo_def LevelWarn_def LevelError_def

lemmas users_defs = RegisterClient_def IssueToken_def RefreshToken_def ViewClient_def ViewProfile_def
  ListClients_def UpdateClient_def UpdateClientTags_def UpdateClientIdentity_def UpdateClientSecret_def
  GenerateResetToken_def ResetSecret_def SendPasswordReset_def UpdateClientRole_def EnableClient_def
  DisableClient_def ListMembers_def Identify_def

lemmas bootstrap_defs = Add_def View_def Update_def UpdateCert_def UpdateConnections_def List_def
  Remove_def Bootstrap_def ChangeState_def UpdateChannelHandler_def RemoveConfigHandler_def
  RemoveChannelHandler_def DisconnectThingHandler_def

lemmas certs_defs = IssueCert_def ListCerts_def ListSerials_def ViewCert_def RevokeCert_def

lemmas handler_defs = logAction_def AuthConnect_def AuthPublish_def AuthSubscribe_def Connect_def
  Disconnect_def Publish_def Subscribe_def Unsubscribe_def

lemmas fixture_defs = idle_def stdout_def errNotFound_def no_Client_def users_stub_def
  bootstrap_stub_def certs_stub_def handler_stub_def

lemmas run_defs = invoke_def Since_def slog_Warn_def slog_Info_def slog_Log_def Enabled_def Let_def

subsection \<open>Where the middlewares hand the call on\<close>

lemma users_passes_through:
  assumes "users_answer (svc lm) c = (res, err, took)" and "res \<noteq> Token_result None"
  shows "fst (users_serve lm c w) = Returned (res, err)"
    and "invoked (snd (users_serve lm c w)) = invoked w @ [c]"
  using assms
  by (cases c; auto simp: users_defs tag_def Let_def slog_Info_def slog_Warn_def
        split: prod.splits option.splits)+

lemma bootstrap_passes_through:
  assumes "bootstrap_answer (svc lm) c = (res, err, took)"
  shows "fst (bootstrap_serve lm c w) = Returned (res, err)"
    and "invoked (snd (bootstrap_serve lm c w)) = invoked w @ [c]"
  using assms
  by (cases c; auto simp: bootstrap_defs tag_def Let_def slog_Info_def slog_Warn_def
        split: prod.splits option.splits)+

lemma certs_passes_through:
  assumes "certs_answer (svc lm) c = (res, err, took)"
  shows "fst (certs_serve lm c w) = Returned (res, err)"
    and "invoked (snd (certs_serve lm c w)) = invoked w @ [c]"
  using assms
  by (cases c; auto simp: certs_defs tag_def Let_def slog_Info_def slog_Warn_def
        split: prod.splits option.splits)+

lemma users_emits:
  assumes "users_answer (svc lm) c = (res, err, took)" and "res \<noteq> Token_result None"
  shows "\<exists>r. emitted (snd (users_serve lm c w)) = emitted w @ [r] \<and>
             reports_outcome (users_operation c) err r"
  using assms
  by (cases c; auto simp: users_defs tag_def Let_def slog_Info_def slog_Warn_def
        reports_outcome_def slog_attr_defs split: prod.splits option.splits)

lemma bootstrap_emits:
  assumes "bootstrap_answer (svc lm) c = (res, err, took)"
  shows "\<exists>r. emitted (snd (bootstrap_serve lm c w)) = emitted w @ [r] \<and>
             reports_outcome (bootstrap_operation c) err r"
  using assms
  by (cases c; auto simp: bootstrap_defs tag_def Let_def slog_Info_def slog_Warn_def
        reports_outcome_def slog_attr_defs split: prod.splits option.splits)

lemma certs_emits:
  assumes "certs_answer (svc lm) c = (res, err, took)"
  shows "\<exists>r. emitted (snd (certs_serve lm c w)) = emitted w @ [r] \<and>
             certs_reports_outcome (certs_operation c) err r"
  using assms
  by (cases c; auto simp: certs_defs tag_def Let_def slog_Info_def slog_Warn_def
        certs_reports_outcome_def slog_attr_defs split: prod.splits option.splits)

subsection \<open>A \<^verbatim>\<open>nil\<close> token\<close>

lemma users_nil_token_panics:
  assumes "users_answer (svc lm) c = (Token_result None, err, took)"
  shows "users_serve lm c w = (Panicked, invoke c took w)"
  using assms
  by (cases c; simp add: users_defs tag_def Let_def split: prod.splits)

subsection \<open>The severity operations that pass the caller's message on\<close>

lemma logger_keeps_message:
  assumes "op \<noteq> Debug" and "isAllowed op (level l)" and "Enabled (sLogger l) (slog_Level op)"
  shows "written (logger_op op l ctx msg w) (writer (sLogger l)) =
           written w (writer (sLogger l)) @
             [\<lparr>r_time = now w, r_level = slog_Level op, r_msg = msg, r_attrs = []\<rparr>]"
  using assms
  by (cases op) (simp_all add: logger_Info_def logger_Warn_def logger_Error_def slog_Log_def Let_def)

subsection \<open>The session-handler middleware and its wrapped handler\<close>

lemma handler_never_invokes:
  "invoked (snd (handler_serve lm c w)) = invoked w"
  by (cases c; simp add: handler_defs Let_def slog_Info_def split: option.splits)

lemma handler_emits_info:
  "handler_serve lm c w = (Panicked, w) \<or>
   (fst (handler_serve lm c w) = Returned ((), None) \<and>
    (\<exists>r. emitted (snd (handler_serve lm c w)) = emitted w @ [r] \<and> r_level r = LevelInfo))"
  by (cases c; simp add: handler_defs Let_def slog_Info_def split: option.splits)

lemma handler_never_fails:
  "fst (handler_serve lm c w) = Returned ((), None) \<or> fst (handler_serve lm c w) = Panicked"
  by (cases c; simp add: handler_defs Let_def slog_Info_def split: option.splits)

section \<open>The logger: levels, threshold, construction\<close>





text \<open>
  Claim C8 (construction with an unparseable level text fails with a diagnostic that holds
  the parse error, the text and a timestamp; with a valid text it succeeds), at the level
  text "verbose": both constructors fail, and the field \<^verbatim>\<open>ts\<close> of the diagnostic is the
  layout string \<^verbatim>\<open>time.RFC3339Nano\<close> itself, the same on every call, not a time. The
  constructor reads no clock. With the text "info" construction succeeds.
\<close>

theorem New_timestamp_is_layout:
  \<open>New errUnrecognized 1 ''verbose'' =
     Inl (errorString ''{"level":"error","message":"unrecognized log level: verbose","ts":"2006-01-02T15:04:05.999999999Z07:00"}'') \<and>
   New_slog (\<lambda>text. Inl (errorString ''slog: level string "verbose": unknown name'')) 1 ''verbose'' =
     Inl (errorString ''{"level":"error","message":"slog: level string "verbose": unknown name: verbose","ts":"2006-01-02T15:04:05.999999999Z07:00"}'') \<and>
   New errUnrecognized 1 ''info'' = Inr \<lparr>sLogger = \<lparr>writer = 1, minLevel = LevelDebug\<rparr>, level = Info\<rparr>\<close>
  by (simp add: New_def New_slog_def UnmarshalText_def parse_def toLower_def levelError_def
        RFC3339Nano_def errUnrecognized_def)

text \<open>
  Claim C10 (a record that passes the threshold has the caller's message as its
  \<^verbatim>\<open>msg\<close>), at \<^verbatim>\<open>Debug\<close> with the threshold Debug: the record's message is the literal
  "msg" and the caller's message is filed as an attribute under \<^verbatim>\<open>!BADKEY\<close>; \<^verbatim>\<open>Info\<close>
  on the same logger writes the caller's message.
\<close>

theorem Debug_logs_literal_msg:
  "New errUnrecognized 1 ''debug'' = Inr \<lparr>sLogger = \<lparr>writer = 1, minLevel = LevelDebug\<rparr>, level = Debug\<rparr> \<and>
   written (logger_Debug \<lparr>sLogger = \<lparr>writer = 1, minLevel = LevelDebug\<rparr>, level = Debug\<rparr>
              0 ''cache warmed up'' (idle :: nat world)) 1 =
     [\<lparr>r_time = 1000, r_level = LevelDebug, r_msg = ''msg'',
        r_attrs = [(''!BADKEY'', StringValue ''cache warmed up'')]\<rparr>] \<and>
   written (logger_Info \<lparr>sLogger = \<lparr>writer = 1, minLevel = LevelDebug\<rparr>, level = Debug\<rparr>
              0 ''cache warmed up'' (idle :: nat world)) 1 =
     [\<lparr>r_time = 1000, r_level = LevelInfo, r_msg = ''cache warmed up'', r_attrs = []\<rparr>]"
  by (simp add: New_def UnmarshalText_def parse_def toLower_def logger_Debug_def logger_Info_def
        isAllowed_def slog_Log_def Enabled_def Let_def badKey_def idle_def level_defs)

section \<open>The logging middlewares\<close>

text \<open>
  Claim C1 (every operation of a middleware calls the wrapped operation exactly once with
  the original arguments and returns its result and error unchanged), at \<^verbatim>\<open>Publish\<close> of
  the session-handler middleware: the wrapped handler would answer the call with an
  error, but it receives no call, the middleware returns \<^verbatim>\<open>nil\<close>, and an Info record
  "Publish() completed successfully" is written.
\<close>

theorem Publish_skips_wrapped_handler:
  "handler_answer (handler_stub (Some errNotFound) 5000000)
     (Call_Publish 0 (Some ''channels/1/messages'') (Some ''on'')) = ((), Some errNotFound, 5000000) \<and>
   Publish \<lparr>logger = stdout, svc = handler_stub (Some errNotFound) 5000000\<rparr>
     0 (Some ''channels/1/messages'') (Some ''on'') idle =
   (Returned ((), None),
    \<lparr>now = 1000, invoked = [],
      emitted = [\<lparr>r_time = 1000, r_level = LevelInfo, r_msg = ''Publish() completed successfully'',
                  r_attrs = [(''duration'', StringOfDuration 0),
                             (''topics'', KindAny (Strs [''channels/1/messages'']))]\<rparr>],
      written = (\<lambda>_. [])(1 := [\<lparr>r_time = 1000, r_level = LevelInfo,
                  r_msg = ''Publish() completed successfully'',
                  r_attrs = [(''duration'', StringOfDuration 0),
                             (''topics'', KindAny (Strs [''channels/1/messages'']))]\<rparr>])\<rparr>)"
  by (simp add: Publish_def logAction_def fixture_defs run_defs slog_attr_defs level_defs)

text \<open>
  Claim C2 (a middleware operation completes normally whatever the wrapped service
  returns, a \<^verbatim>\<open>nil\<close> result pointer beside an error included), at \<^verbatim>\<open>IssueToken\<close> of the
  users middleware: the service returns a \<^verbatim>\<open>nil\<close> token and an error, and the call
  panics.
\<close>

theorem IssueToken_nil_token_panics:
  "svc_IssueToken (users_stub no_Client None (Some errNotFound) 5000000) 0 ''a@b.c'' ''secret'' ''d1''
     = (None, Some errNotFound, 5000000) \<and>
   fst (IssueToken \<lparr>logger = stdout, svc = users_stub no_Client None (Some errNotFound) 5000000\<rparr>
          0 ''a@b.c'' ''secret'' ''d1'' idle) = Panicked"
  by (simp add: IssueToken_def fixture_defs run_defs)

text \<open>
  Claim C3 (a call whose wrapped service returns an error emits exactly one Warn record
  with \<^verbatim>\<open>duration\<close> and \<^verbatim>\<open>error\<close>, and returns that error), at \<^verbatim>\<open>RefreshToken\<close> of the
  users middleware: the service is called, returns a \<^verbatim>\<open>nil\<close> token and an error, and the
  call panics with no record emitted, nothing written and no error returned.
\<close>

theorem RefreshToken_failure_without_warning:
  "RefreshToken \<lparr>logger = stdout, svc = users_stub no_Client None (Some errNotFound) 5000000\<rparr>
     0 ''refresh'' ''d1'' idle =
   (Panicked,
    \<lparr>now = 5001000, invoked = [Call_RefreshToken 0 ''refresh'' ''d1''], emitted = [],
      written = (\<lambda>_. [])\<rparr>)"
  by (simp add: RefreshToken_def fixture_defs run_defs)

text \<open>
  Claim C4 (every intercepted call emits exactly one record), at \<^verbatim>\<open>IssueToken\<close> called
  through the interface of the users service, the service returning a \<^verbatim>\<open>nil\<close> token and
  an error: no record is emitted and the writer receives nothing, although the logger
  lets every level through.
\<close>

theorem IssueToken_nil_token_emits_nothing:
  "emitted (snd (users_serve \<lparr>logger = stdout, svc = users_stub no_Client None (Some errNotFound) 5000000\<rparr>
                   (Call_IssueToken 0 ''a@b.c'' ''secret'' ''d1'') idle)) = [] \<and>
   written (snd (users_serve \<lparr>logger = stdout, svc = users_stub no_Client None (Some errNotFound) 5000000\<rparr>
                   (Call_IssueToken 0 ''a@b.c'' ''secret'' ''d1'') idle)) 1 = []"
  by (simp add: IssueToken_def fixture_defs run_defs)

text \<open>
  Claim C5 (a field read from the result is present on failure as on success, holding the
  zero value when the call failed before assigning it), at \<^verbatim>\<open>IssueToken\<close>: the field
  \<^verbatim>\<open>access_type\<close> is logged for a token of access type "Bearer" and is left out when the
  failed call returns a token whose access type is the empty string.
\<close>

theorem access_type_left_out_when_empty:
  "emitted (snd (IssueToken
       \<lparr>logger = stdout,
          svc = users_stub no_Client (Some \<lparr>AccessToken = ''eyJ'', AccessType = ''Bearer''\<rparr>) None 5000000\<rparr>
       0 ''a@b.c'' ''secret'' ''d1'' idle)) =
     [\<lparr>r_time = 5001000, r_level = LevelInfo, r_msg = ''Issue token completed successfully'',
        r_attrs = [(''duration'', StringOfDuration 5000000), (''domain_id'', StringValue ''d1''),
                   (''access_type'', StringValue ''Bearer'')]\<rparr>] \<and>
   emitted (snd (IssueToken
       \<lparr>logger = stdout,
          svc = users_stub no_Client (Some \<lparr>AccessToken = '''', AccessType = ''''\<rparr>) (Some errNotFound) 5000000\<rparr>
       0 ''a@b.c'' ''secret'' ''d1'' idle)) =
     [\<lparr>r_time = 5001000, r_level = LevelWarn, r_msg = ''Issue token failed to complete successfully'',
        r_attrs = [(''duration'', StringOfDuration 5000000), (''domain_id'', StringValue ''d1''),
                   (''error'', KindAny (Err errNotFound))]\<rparr>]"
  by (simp add: IssueToken_def idle_def stdout_def users_stub_def run_defs slog_attr_defs)

text \<open>
  Claim C5, amended. In the users and the bootstrap middleware, for every operation, if
  the wrapped service returns the same result (not a \<^verbatim>\<open>nil\<close> token) once with an error and
  once without, the record emitted on failure carries exactly the attributes of the
  record emitted on success, in the same order and with the same values, followed by
  \<^verbatim>\<open>error\<close>: a field read from the result holds whatever the result holds, and none is
  dropped because the call failed. The one exception is \<^verbatim>\<open>access_type\<close> of \<^verbatim>\<open>IssueToken\<close>
  and \<^verbatim>\<open>RefreshToken\<close>: for a token that is not \<^verbatim>\<open>nil\<close> it is present with the token's
  access type when that is not empty, and absent when it is empty, with or without an
  error.
\<close>

theorem result_fields_kept_on_failure:
  "(users_answer (svc ulm) uc = (ures, Some ue, ut) \<and> users_answer (svc ulm') uc = (ures, None, ut) \<and>
    ures \<noteq> Token_result None \<longrightarrow>
      (\<exists>r r'. emitted (snd (users_serve ulm uc uw)) = emitted uw @ [r] \<and>
               emitted (snd (users_serve ulm' uc uw)) = emitted uw @ [r'] \<and>
               r_attrs r = r_attrs r' @ [slog_Any ''error'' (Err ue)])) \<and>
   (bootstrap_answer (svc blm) bc = (bres, Some be, bt) \<and>
    bootstrap_answer (svc blm') bc = (bres, None, bt) \<longrightarrow>
      (\<exists>r r'. emitted (snd (bootstrap_serve blm bc bw)) = emitted bw @ [r] \<and>
               emitted (snd (bootstrap_serve blm' bc bw)) = emitted bw @ [r'] \<and>
               r_attrs r = r_attrs r' @ [slog_Any ''error'' (Err be)])) \<and>
   (svc_IssueToken (svc ilm) ictx identity secret idom = (Some itk, ierr, it) \<longrightarrow>
      (\<exists>r. emitted (snd (IssueToken ilm ictx identity secret idom iw)) = emitted iw @ [r] \<and>
           (if AccessType itk = '''' then ''access_type'' \<notin> fst ` set (r_attrs r)
            else (''access_type'', StringValue (AccessType itk)) \<in> set (r_attrs r)))) \<and>
   (svc_RefreshToken (svc rlm) rctx refreshToken rdom = (Some rtk, rerr, rt) \<longrightarrow>
      (\<exists>r. emitted (snd (RefreshToken rlm rctx refreshToken rdom rw)) = emitted rw @ [r] \<and>
           (if AccessType rtk = '''' then ''access_type'' \<notin> fst ` set (r_attrs r)
            else (''access_type'', StringValue (AccessType rtk)) \<in> set (r_attrs r))))"
proof (intro conjI impI)
  assume "users_answer (svc ulm) uc = (ures, Some ue, ut) \<and>
    users_answer (svc ulm') uc = (ures, None, ut) \<and> ures \<noteq> Token_result None"
  then show "\<exists>r r'. emitted (snd (users_serve ulm uc uw)) = emitted uw @ [r] \<and>
               emitted (snd (users_serve ulm' uc uw)) = emitted uw @ [r'] \<and>
               r_attrs r = r_attrs r' @ [slog_Any ''error'' (Err ue)]"
    by (cases uc; auto simp: users_defs tag_def Let_def slog_Info_def slog_Warn_def Since_def
          slog_attr_defs split: prod.splits option.splits)
next
  assume "bootstrap_answer (svc blm) bc = (bres, Some be, bt) \<and>
    bootstrap_answer (svc blm') bc = (bres, None, bt)"
  then show "\<exists>r r'. emitted (snd (bootstrap_serve blm bc bw)) = emitted bw @ [r] \<and>
               emitted (snd (bootstrap_serve blm' bc bw)) = emitted bw @ [r'] \<and>
               r_attrs r = r_attrs r' @ [slog_Any ''error'' (Err be)]"
    by (cases bc; auto simp: bootstrap_defs tag_def Let_def slog_Info_def slog_Warn_def Since_def
          slog_attr_defs split: prod.splits option.splits)
next
  assume "svc_IssueToken (svc ilm) ictx identity secret idom = (Some itk, ierr, it)"
  then show "\<exists>r. emitted (snd (IssueToken ilm ictx identity secret idom iw)) = emitted iw @ [r] \<and>
           (if AccessType itk = '''' then ''access_type'' \<notin> fst ` set (r_attrs r)
            else (''access_type'', StringValue (AccessType itk)) \<in> set (r_attrs r))"
    by (cases ierr; simp add: IssueToken_def Let_def slog_Info_def slog_Warn_def slog_attr_defs)
next
  assume "svc_RefreshToken (svc rlm) rctx refreshToken rdom = (Some rtk, rerr, rt)"
  then show "\<exists>r. emitted (snd (RefreshToken rlm rctx refreshToken rdom rw)) = emitted rw @ [r] \<and>
           (if AccessType rtk = '''' then ''access_type'' \<notin> fst ` set (r_attrs r)
            else (''access_type'', StringValue (AccessType rtk)) \<in> set (r_attrs r))"
    by (cases rerr; simp add: RefreshToken_def Let_def slog_Info_def slog_Warn_def slog_attr_defs)
qed

text \<open>
  The amended claim C5 at \<^verbatim>\<open>RegisterClient\<close> and \<^verbatim>\<open>Add\<close>, the service returning the zero
  client (the zero configuration) with and without an error: the group \<^verbatim>\<open>user\<close> is logged
  with empty name and id in both records; and at \<^verbatim>\<open>IssueToken\<close> and \<^verbatim>\<open>RefreshToken\<close> with
  a "Bearer" token and with a token of empty access type.
\<close>

theorem result_fields_kept_on_failure_witness:
  "users_answer (users_stub no_Client None (Some errNotFound) 5000000)
       (Call_RegisterClient 0 ''tok'' no_Client) = (Client_result no_Client, Some errNotFound, 5000000) \<and>
   users_answer (users_stub no_Client None None 5000000)
       (Call_RegisterClient 0 ''tok'' no_Client) = (Client_result no_Client, None, 5000000) \<and>
   Client_result no_Client \<noteq> Token_result None \<and>
   (\<exists>r r'. emitted (snd (users_serve \<lparr>logger = stdout, svc = users_stub no_Client None (Some errNotFound) 5000000\<rparr>
                        (Call_RegisterClient 0 ''tok'' no_Client) idle)) = [r] \<and>
           emitted (snd (users_serve \<lparr>logger = stdout, svc = users_stub no_Client None None 5000000\<rparr>
                        (Call_RegisterClient 0 ''tok'' no_Client) idle)) = [r'] \<and>
           r_attrs r = r_attrs r' @ [(''error'', KindAny (Err errNotFound))] \<and>
           r_attrs r' = [(''duration'', StringOfDuration 5000000),
                         (''user'', GroupValue [(''name'', StringValue ''''), (''id'', StringValue '''')])]) \<and>
   bootstrap_answer (bootstrap_stub \<lparr>ThingID = '''', ExternalID = ''''\<rparr> (Some errNotFound) 5000000)
       (Call_Add 0 ''tok'' \<lparr>ThingID = ''thing-1'', ExternalID = ''ext-1''\<rparr>) =
     (Config_result \<lparr>ThingID = '''', ExternalID = ''''\<rparr>, Some errNotFound, 5000000) \<and>
   bootstrap_answer (bootstrap_stub \<lparr>ThingID = '''', ExternalID = ''''\<rparr> None 5000000)
       (Call_Add 0 ''tok'' \<lparr>ThingID = ''thing-1'', ExternalID = ''ext-1''\<rparr>) =
     (Config_result \<lparr>ThingID = '''', ExternalID = ''''\<rparr>, None, 5000000) \<and>
   (\<exists>r r'. emitted (snd (bootstrap_serve
              \<lparr>logger = stdout, svc = bootstrap_stub \<lparr>ThingID = '''', ExternalID = ''''\<rparr> (Some errNotFound) 5000000\<rparr>
              (Call_Add 0 ''tok'' \<lparr>ThingID = ''thing-1'', ExternalID = ''ext-1''\<rparr>) idle)) = [r] \<and>
           emitted (snd (bootstrap_serve
              \<lparr>logger = stdout, svc = bootstrap_stub \<lparr>ThingID = '''', ExternalID = ''''\<rparr> None 5000000\<rparr>
              (Call_Add 0 ''tok'' \<lparr>ThingID = ''thing-1'', ExternalID = ''ext-1''\<rparr>) idle)) = [r'] \<and>
           r_attrs r = r_attrs r' @ [(''error'', KindAny (Err errNotFound))]) \<and>
   svc_IssueToken (users_stub no_Client (Some \<lparr>AccessToken = ''eyJ'', AccessType = ''Bearer''\<rparr>) (Some errNotFound) 5000000)
       0 ''a@b.c'' ''secret'' ''d1'' =
     (Some \<lparr>AccessToken = ''eyJ'', AccessType = ''Bearer''\<rparr>, Some errNotFound, 5000000) \<and>
   (\<exists>r. emitted (snd (IssueToken
            \<lparr>logger = stdout,
               svc = users_stub no_Client (Some \<lparr>AccessToken = ''eyJ'', AccessType = ''Bearer''\<rparr>) (Some errNotFound) 5000000\<rparr>
            0 ''a@b.c'' ''secret'' ''d1'' idle)) = [r] \<and>
        (''access_type'', StringValue ''Bearer'') \<in> set (r_attrs r)) \<and>
   svc_RefreshToken (users_stub no_Client (Some \<lparr>AccessToken = '''', AccessType = ''''\<rparr>) (Some errNotFound) 5000000)
       0 ''refresh'' ''d1'' =
     (Some \<lparr>AccessToken = '''', AccessType = ''''\<rparr>, Some errNotFound, 5000000) \<and>
   (\<exists>r. emitted (snd (RefreshToken
            \<lparr>logger = stdout,
               svc = users_stub no_Client (Some \<lparr>AccessToken = '''', AccessType = ''''\<rparr>) (Some errNotFound) 5000000\<rparr>
            0 ''refresh'' ''d1'' idle)) = [r] \<and>
        ''access_type'' \<notin> fst ` set (r_attrs r))"
  using result_fields_kept_on_failure
    [where ulm = "\<lparr>logger = stdout, svc = users_stub no_Client None (Some errNotFound) 5000000\<rparr>"
       and ulm' = "\<lparr>logger = stdout, svc = users_stub no_Client None None 5000000\<rparr>"
       and uc = "Call_RegisterClient 0 ''tok'' no_Client" and ures = "Client_result no_Client"
       and ue = errNotFound and ut = 5000000 and uw = idle
       and blm = "\<lparr>logger = stdout, svc = bootstrap_stub \<lparr>ThingID = '''', ExternalID = ''''\<rparr> (Some errNotFound) 5000000\<rparr>"
       and blm' = "\<lparr>logger = stdout, svc = bootstrap_stub \<lparr>ThingID = '''', ExternalID = ''''\<rparr> None 5000000\<rparr>"
       and bc = "Call_Add 0 ''tok'' \<lparr>ThingID = ''thing-1'', ExternalID = ''ext-1''\<rparr>"
       and bres = "Config_result \<lparr>ThingID = '''', ExternalID = ''''\<rparr>"
       and be = errNotFound and bt = 5000000 and bw = idle
       and ilm = "\<lparr>logger = stdout,
               svc = users_stub no_Client (Some \<lparr>AccessToken = ''eyJ'', AccessType = ''Bearer''\<rparr>) (Some errNotFound) 5000000\<rparr>"
       and ictx = 0 and identity = "''a@b.c''" and secret = "''secret''" and idom = "''d1''"
       and itk = "\<lparr>AccessToken = ''eyJ'', AccessType = ''Bearer''\<rparr>" and ierr = "Some errNotFound"
       and it = 5000000 and iw = idle
       and rlm = "\<lparr>logger = stdout,
               svc = users_stub no_Client (Some \<lparr>AccessToken = '''', AccessType = ''''\<rparr>) (Some errNotFound) 5000000\<rparr>"
       and rctx = 0 and refreshToken = "''refresh''" and rdom = "''d1''"
       and rtk = "\<lparr>AccessToken = '''', AccessType = ''''\<rparr>" and rerr = "Some errNotFound"
       and rt = 5000000 and rw = idle]
  by (simp add: users_stub_def bootstrap_stub_def tag_def idle_def slog_Any_def
        RegisterClient_def run_defs slog_attr_defs no_Client_def)

text \<open>
  Claim C6 (on failure every middleware logs at Warn level the message "<Operation> failed
  to complete successfully" with an appended \<^verbatim>\<open>error\<close> field), at \<^verbatim>\<open>IssueCert\<close> of the certs
  middleware: the message is "Method issue_cert completed with error.", and \<^verbatim>\<open>error\<close>,
  the error's text, is the first attribute.
\<close>

theorem IssueCert_failure_message:
  "emitted (snd (IssueCert \<lparr>logger = stdout, svc = certs_stub (Some errNotFound) 5000000\<rparr>
                   0 ''tok'' ''thing-1'' ''24h'' idle)) =
     [\<lparr>r_time = 5001000, r_level = LevelWarn, r_msg = ''Method issue_cert completed with error.'',
        r_attrs = [(''error'', StringValue ''entity not found''),
                   (''duration'', StringOfDuration 5000000)]\<rparr>]"
  by (simp add: IssueCert_def idle_def stdout_def certs_stub_def errNotFound_def run_defs slog_attr_defs)

text \<open>
  Claim C6, amended. For every operation of the users (the token not \<^verbatim>\<open>nil\<close>), bootstrap
  and certs middlewares exactly one record is emitted, and its level and message follow
  from the presence of an error alone. Users and bootstrap: Warn, "<Operation> failed to
  complete successfully" and the error as the last attribute when the service returned
  an error; Info, "<Operation> completed successfully" and no \<^verbatim>\<open>error\<close> attribute
  otherwise. Certs: Warn, "Method <operation> completed with error." and the error's text
  as the first attribute; Info, "Method <operation> completed without errors." and no
  \<^verbatim>\<open>error\<close> attribute otherwise.
\<close>

theorem severity_follows_error:
  "(users_answer (svc ulm) uc = (ures, uerr, ut) \<and> ures \<noteq> Token_result None \<longrightarrow>
      (\<exists>r. emitted (snd (users_serve ulm uc uw)) = emitted uw @ [r] \<and>
           reports_outcome (users_operation uc) uerr r)) \<and>
   (bootstrap_answer (svc blm) bc = (bres, berr, bt) \<longrightarrow>
      (\<exists>r. emitted (snd (bootstrap_serve blm bc bw)) = emitted bw @ [r] \<and>
           reports_outcome (bootstrap_operation bc) berr r)) \<and>
   (certs_answer (svc clm) cc = (cres, cerr, ct) \<longrightarrow>
      (\<exists>r. emitted (snd (certs_serve clm cc cw)) = emitted cw @ [r] \<and>
           certs_reports_outcome (certs_operation cc) cerr r))"
  using users_emits [of ulm uc ures uerr ut uw] bootstrap_emits [of blm bc bres berr bt bw]
    certs_emits [of clm cc cres cerr ct cw]
  by blast

text \<open>
  The amended claim C6 at a failing \<^verbatim>\<open>RegisterClient\<close>, a successful \<^verbatim>\<open>View\<close> and a
  failing \<^verbatim>\<open>ViewCert\<close>.
\<close>

theorem severity_follows_error_witness:
  "users_answer (users_stub no_Client None (Some errNotFound) 5000000)
       (Call_RegisterClient 0 ''tok'' no_Client) = (Client_result no_Client, Some errNotFound, 5000000) \<and>
   Client_result no_Client \<noteq> Token_result None \<and>
   (\<exists>r. emitted (snd (users_serve \<lparr>logger = stdout, svc = users_stub no_Client None (Some errNotFound) 5000000\<rparr>
                        (Call_RegisterClient 0 ''tok'' no_Client) idle)) = [r] \<and>
        reports_outcome ''Register client'' (Some errNotFound) r) \<and>
   bootstrap_answer (bootstrap_stub \<lparr>ThingID = ''thing-1'', ExternalID = ''ext-1''\<rparr> None 5000000)
       (Call_View 0 ''tok'' ''thing-1'') =
     (Config_result \<lparr>ThingID = ''thing-1'', ExternalID = ''ext-1''\<rparr>, None, 5000000) \<and>
   (\<exists>r. emitted (snd (bootstrap_serve
            \<lparr>logger = stdout, svc = bootstrap_stub \<lparr>ThingID = ''thing-1'', ExternalID = ''ext-1''\<rparr> None 5000000\<rparr>
            (Call_View 0 ''tok'' ''thing-1'') idle)) = [r] \<and>
        reports_outcome ''View'' None r) \<and>
   certs_answer (certs_stub (Some errNotFound) 5000000) (Call_ViewCert 0 ''tok'' ''serial-1'') =
     (Cert_result (Cert ''serial-1''), Some errNotFound, 5000000) \<and>
   (\<exists>r. emitted (snd (certs_serve \<lparr>logger = stdout, svc = certs_stub (Some errNotFound) 5000000\<rparr>
                        (Call_ViewCert 0 ''tok'' ''serial-1'') idle)) = [r] \<and>
        certs_reports_outcome ''view_cert'' (Some errNotFound) r)"
  using severity_follows_error
    [where ulm = "\<lparr>logger = stdout, svc = users_stub no_Client None (Some errNotFound) 5000000\<rparr>"
       and uc = "Call_RegisterClient 0 ''tok'' no_Client" and ures = "Client_result no_Client"
       and uerr = "Some errNotFound" and ut = 5000000 and uw = idle
       and blm = "\<lparr>logger = stdout, svc = bootstrap_stub \<lparr>ThingID = ''thing-1'', ExternalID = ''ext-1''\<rparr> None 5000000\<rparr>"
       and bc = "Call_View 0 ''tok'' ''thing-1''"
       and bres = "Config_result \<lparr>ThingID = ''thing-1'', ExternalID = ''ext-1''\<rparr>"
       and berr = None and bt = 5000000 and bw = idle
       and clm = "\<lparr>logger = stdout, svc = certs_stub (Some errNotFound) 5000000\<rparr>"
       and cc = "Call_ViewCert 0 ''tok'' ''serial-1''" and cres = "Cert_result (Cert ''serial-1'')"
       and cerr = "Some errNotFound" and ct = 5000000 and cw = idle]
  by (simp add: users_stub_def bootstrap_stub_def certs_stub_def tag_def idle_def)

end
